theory Spec2Isabelle
  imports Complex_Main "HOL-Library.List_Lexorder"
begin

section \<open>Scanning-lidar tables: a shallow embedding of \<open>mmctools/measurements/lidar.py\<close>\<close>

text \<open>
  Numbers are modelled as \<^typ>\<open>real\<close>, the values that the doubles of the source
  denote. Formulas are taken in exact arithmetic, except in the range-gate lookup, whose
  outcome depends on how the gate edges round: there the arithmetic is a parameter. A
  missing value (NaN) in the payload of a table is \<open>None\<close>; index coordinates are taken
  to be proper numbers.
\<close>

subsection \<open>Exceptions\<close>

text \<open>
  Every exception class the module can raise, with the text of its message. The two
  \<open>ValueError\<close>s of \<open>get_range\<close> interpolate a bound into the message: the bound is kept
  as the second argument. \<open>SolverError\<close> stands for whatever exception the external
  least-squares routine raises.
\<close>

datatype error =
    KeyError string
  | IndexError string
  | AssertionError string
  | ValueError string real
  | TypeError string
  | AttributeError string
  | SolverError string

subsection \<open>Tables with a multi-level index\<close>

text \<open>
  A \<open>pandas.DataFrame\<close> with a \<open>MultiIndex\<close>: the names of the index levels, the names
  of the data columns, and one entry per row holding the index tuple and the fields.
\<close>

record dataframe =
  names :: "string list"
  columns :: "string list"
  rows :: "(real list \<times> real option list) list"

definition wf_df :: "dataframe \<Rightarrow> bool" where
  "wf_df d \<longleftrightarrow>
     list_all (\<lambda>(k, p). length k = length (names d) \<and> length p = length (columns d)) (rows d)"

text \<open>Position of the first occurrence of a name, as \<open>list.index\<close> finds it.\<close>

fun index_of :: "'a \<Rightarrow> 'a list \<Rightarrow> nat option" where
  "index_of x [] = None"
| "index_of x (y # ys) =
     (if x = y then Some 0 else (case index_of x ys of None \<Rightarrow> None | Some i \<Rightarrow> Some (Suc i)))"

text \<open>\<open>df.index.get_level_values(name)\<close>: one value per row; \<open>KeyError\<close> for an unknown level.\<close>

definition get_level_values :: "dataframe \<Rightarrow> string \<Rightarrow> error + real list" where
  "get_level_values d name =
     (case index_of name (names d) of
        None \<Rightarrow> Inl (KeyError name)
      | Some k \<Rightarrow> Inr (map (\<lambda>(key, _). key ! k) (rows d)))"

text \<open>
  \<open>df.index.levels[k]\<close>: the sorted distinct values of the \<open>k\<close>-th level (the table is
  taken as \<open>set_index(...).sort_index()\<close> builds it, with no unused level values);
  indexing the list of levels out of range raises \<open>IndexError\<close>.
\<close>

definition levels :: "dataframe \<Rightarrow> nat \<Rightarrow> error + real list" where
  "levels d k =
     (if k < length (names d)
      then Inr (sort (remdups (map (\<lambda>(key, _). key ! k) (rows d))))
      else Inl (IndexError ''list index out of range''))"

text \<open>\<open>df[name]\<close>: a data column; \<open>KeyError\<close> for an unknown column.\<close>

definition column :: "dataframe \<Rightarrow> string \<Rightarrow> error + real option list" where
  "column d name =
     (case index_of name (columns d) of
        None \<Rightarrow> Inl (KeyError name)
      | Some j \<Rightarrow> Inr (map (\<lambda>(_, p). p ! j) (rows d)))"

text \<open>\<open>df.loc[mask, :] = np.nan\<close>: every field of a selected row becomes missing.\<close>

definition mask_list ::
  "bool list \<Rightarrow> (real list \<times> real option list) list \<Rightarrow> (real list \<times> real option list) list" where
  "mask_list sel rs = map (\<lambda>(b, (k, p)). (k, if b then map (\<lambda>_. None) p else p)) (zip sel rs)"

definition mask_rows :: "bool list \<Rightarrow> dataframe \<Rightarrow> dataframe" where
  "mask_rows sel d = d\<lparr>rows := mask_list sel (rows d)\<rparr>"

text \<open>Python indexing of a sequence by an integer: negative positions count from the end.\<close>

definition py_nth :: "'a list \<Rightarrow> int \<Rightarrow> error + 'a" where
  "py_nth xs i =
     (if 0 \<le> i \<and> i < int (length xs) then Inr (xs ! nat i)
      else if i < 0 \<and> - int (length xs) \<le> i then Inr (xs ! nat (int (length xs) + i))
      else Inl (IndexError ''index out of bounds''))"

text \<open>\<open>np.where(cond)[0][0]\<close>: the first position where the condition holds.\<close>

fun first_where :: "('a \<Rightarrow> bool) \<Rightarrow> 'a list \<Rightarrow> nat option" where
  "first_where P [] = None"
| "first_where P (x # xs) =
     (if P x then Some 0 else (case first_where P xs of None \<Rightarrow> None | Some i \<Rightarrow> Some (Suc i)))"

subsection \<open>The container \<open>LidarData\<close>\<close>

text \<open>What the container prints when \<open>verbose\<close>.\<close>

datatype message =
    Loaded string
  | NearestRangeGate nat real real
  | RangeGate nat real real

text \<open>
  The attributes of a \<open>LidarData\<close> object. \<open>range_gate_size\<close>, \<open>rmin\<close> and \<open>rmax\<close> do not
  exist before \<open>_check_data\<close> has run (\<open>None\<close>); \<open>printed\<close> collects the output.
\<close>

record LidarData =
  verbose :: bool
  df :: dataframe
  RHI :: bool
  PPI :: bool
  range_gate_size :: "real option"
  rmin :: "real option"
  rmax :: "real option"
  printed :: "message list"

definition say :: "message \<Rightarrow> LidarData \<Rightarrow> LidarData" where
  "say m self = (if verbose self then self\<lparr>printed := printed self @ [m]\<rparr> else self)"

text \<open>\<open>str(df.index.names)\<close>, as in \<open>['range', 'azimuth']\<close>.\<close>

fun join_names :: "string list \<Rightarrow> string" where
  "join_names [] = []"
| "join_names [n] = [CHR 0x27] @ n @ [CHR 0x27]"
| "join_names (n # ns) = [CHR 0x27] @ n @ [CHR 0x27] @ '', '' @ join_names ns"

definition str_names :: "string list \<Rightarrow> string" where
  "str_names ns = ''['' @ join_names ns @ '']''"

text \<open>The first half of \<open>_check_data\<close>: the scan type from the axes present in the key.\<close>

definition check_coordinates :: "LidarData \<Rightarrow> error + LidarData" where
  "check_coordinates self =
     (let ns = names (df self) in
      if list_all (\<lambda>coord. coord \<in> set ns) [''range'', ''azimuth'', ''elevation'']
      then Inr (say (Loaded ''3D volumetric scan loaded'') self)
      else if ''range'' \<notin> set ns
      then Inr (say (Loaded ''Vertical scan loaded'') self)
      else if ''azimuth'' \<notin> set ns
      then Inr ((say (Loaded ''RHI scan loaded'') self)\<lparr>RHI := True\<rparr>)
      else if ''elevation'' \<notin> set ns
      then Inr ((say (Loaded ''PPI scan loaded'') self)\<lparr>PPI := True\<rparr>)
      else Inl (IndexError (''Unexpected index levels in dataframe: '' @ str_names ns)))"

text \<open>The second half of \<open>_check_data\<close>: gate size and bounds from the first index level.\<close>

definition check_ranges :: "LidarData \<Rightarrow> error + LidarData" where
  "check_ranges self =
     (case levels (df self) 0 of
        Inl e \<Rightarrow> Inl e
      | Inr rarray \<Rightarrow>
          if length rarray < 2 then Inl (IndexError ''index 1 is out of bounds'')
          else
            let dr = rarray ! 1 - rarray ! 0 in
            (case range_gate_size self of
               Some g \<Rightarrow>
                 if g = dr
                 then Inr (self\<lparr>rmin := Some (rarray ! 0 - g / 2), rmax := Some (last rarray + g / 2)\<rparr>)
                 else Inl (AssertionError [])
             | None \<Rightarrow>
                 Inr (self\<lparr>range_gate_size := Some dr,
                           rmin := Some (rarray ! 0 - dr / 2),
                           rmax := Some (last rarray + dr / 2)\<rparr>)))"

definition check_data :: "LidarData \<Rightarrow> error + LidarData" where
  "check_data self =
     (case check_coordinates self of Inl e \<Rightarrow> Inl e | Inr self' \<Rightarrow> check_ranges self')"

text \<open>\<open>LidarData.__init__(df, verbose)\<close>\<close>

definition LidarData_init :: "dataframe \<Rightarrow> bool \<Rightarrow> error + LidarData" where
  "LidarData_init d v =
     check_data \<lparr>verbose = v, df = d, RHI = False, PPI = False,
                 range_gate_size = None, rmin = None, rmax = None, printed = []\<rparr>"

text \<open>The accessors \<open>r\<close>, \<open>az\<close> and \<open>el\<close>.\<close>

definition r :: "LidarData \<Rightarrow> error + real list" where
  "r self = levels (df self) 0"

definition az :: "LidarData \<Rightarrow> error + real list" where
  "az self = levels (df self) 1"

definition el :: "LidarData \<Rightarrow> error + real list" where
  "el self = levels (df self) 2"

text \<open>
  \<open>df.loc[(rsel, slice(None), slice(None)), :]\<close>: the rows whose first index coordinate is
  \<open>rsel\<close>, under the unchanged key.
\<close>

definition loc_first :: "real \<Rightarrow> dataframe \<Rightarrow> dataframe" where
  "loc_first rsel d = d\<lparr>rows := filter (\<lambda>(key, _). key ! 0 = rsel) (rows d)\<rparr>"

text \<open>
  The arithmetic of the gate edges in \<open>get_range\<close>. The source computes in double
  precision, where a sum, a difference and a quotient are rounded: the three operations
  are parameters, functions on the numbers the machine values denote. Comparisons are
  exact in either arithmetic. \<open>exact\<close> is the arithmetic without rounding.
\<close>

record arith =
  fadd :: "real \<Rightarrow> real \<Rightarrow> real"
  fsub :: "real \<Rightarrow> real \<Rightarrow> real"
  fdiv :: "real \<Rightarrow> real \<Rightarrow> real"

definition exact :: arith where
  "exact = \<lparr>fadd = (\<lambda>a b. a + b), fsub = (\<lambda>a b. a - b), fdiv = (\<lambda>a b. a / b)\<rparr>"

text \<open>\<open>get_range(r)\<close>: what is printed, and the table returned.\<close>

definition get_range :: "arith \<Rightarrow> LidarData \<Rightarrow> real \<Rightarrow> error + (message list \<times> dataframe)" where
  "get_range ar self q =
     (case levels (df self) 0 of
        Inl e \<Rightarrow> Inl e
      | Inr rarray \<Rightarrow>
     (case rmin self of
        None \<Rightarrow> Inl (AttributeError ''rmin'')
      | Some lo \<Rightarrow>
     if q < lo then Inl (ValueError ''Invalid range, r < '' lo)
     else
     (case rmax self of
        None \<Rightarrow> Inl (AttributeError ''rmax'')
      | Some hi \<Rightarrow>
     if q \<ge> hi then Inl (ValueError ''Invalid range, r >= '' hi)
     else
     (case range_gate_size self of
        None \<Rightarrow> Inl (AttributeError ''range_gate_size'')
      | Some g \<Rightarrow>
     if q \<notin> set rarray then
       (case first_where (\<lambda>edge. q < edge) (map (\<lambda>c. fadd ar c (fdiv ar g 2)) rarray) of
          None \<Rightarrow> Inl (IndexError ''index 0 is out of bounds'')
        | Some idx \<Rightarrow>
            let rsel = rarray ! idx;
                r0 = fsub ar rsel (fdiv ar g 2);
                r1 = fadd ar rsel (fdiv ar g 2) in
            if q \<ge> r0 \<and> q < r1
            then Inr (if verbose self then [NearestRangeGate idx r0 r1] else [],
                      loc_first rsel (df self))
            else Inl (AssertionError ''r is not between r0 and r1''))
     else
       (case index_of q rarray of
          None \<Rightarrow> Inl (ValueError ''not in list'' q)
        | Some idx \<Rightarrow>
            Inr (if verbose self
                 then [RangeGate idx (fsub ar q (fdiv ar g 2)) (fadd ar q (fdiv ar g 2))]
                 else [],
                 loc_first q (df self)))))))"

subsection \<open>Coordinate transform \<open>calc_xyz\<close>\<close>

text \<open>
  A numpy operand: a scalar or an array with one entry per row. Arithmetic broadcasts a
  scalar over an array; two arrays combine entry by entry (in \<open>calc_xyz\<close> all arrays
  come from the same index and have the same length).
\<close>

datatype arr = Scalar real | Vec "real list"

fun arr_map :: "(real \<Rightarrow> real) \<Rightarrow> arr \<Rightarrow> arr" where
  "arr_map f (Scalar a) = Scalar (f a)"
| "arr_map f (Vec v) = Vec (map f v)"

fun arr_map2 :: "(real \<Rightarrow> real \<Rightarrow> real) \<Rightarrow> arr \<Rightarrow> arr \<Rightarrow> arr" where
  "arr_map2 f (Scalar a) (Scalar b) = Scalar (f a b)"
| "arr_map2 f (Scalar a) (Vec w) = Vec (map (f a) w)"
| "arr_map2 f (Vec v) (Scalar b) = Vec (map (\<lambda>a. f a b) v)"
| "arr_map2 f (Vec v) (Vec w) = Vec (map (\<lambda>(a, b). f a b) (zip v w))"

definition arr_times :: "arr \<Rightarrow> arr \<Rightarrow> arr" where
  "arr_times = arr_map2 (\<lambda>a b. a * b)"

definition radians :: "real \<Rightarrow> real" where
  "radians d = d * pi / 180"

definition degrees :: "real \<Rightarrow> real" where
  "degrees x = x * 180 / pi"

text \<open>
  \<open>calc_xyz(df, range, azimuth, elevation, small_elevation_angles)\<close>. The constants
  \<open>range\<close> (here \<open>rng\<close>) and \<open>azimuth\<close> default to \<open>None\<close>, \<open>elevation\<close> to \<open>0.0\<close>.
  The second assertion tests \<open>range\<close>, as the source does; subtracting \<open>None\<close> from
  \<open>90\<close> is a \<open>TypeError\<close>.
\<close>

definition calc_xyz ::
  "dataframe \<Rightarrow> real option \<Rightarrow> real option \<Rightarrow> real \<Rightarrow> bool \<Rightarrow> error + (arr \<times> arr \<times> arr)" where
  "calc_xyz d rng azimuth elevation small_elevation_angles =
     (case (case get_level_values d ''range'' of
              Inr v \<Rightarrow> Inr (Vec v)
            | Inl _ \<Rightarrow>
                (case rng of
                   None \<Rightarrow> Inl (AssertionError ''need to specify constant value for `range`'')
                 | Some c \<Rightarrow> Inr (Scalar c)))
      of Inl e \<Rightarrow> Inl e
       | Inr rr \<Rightarrow>
     (case (case get_level_values d ''azimuth'' of
              Inr v \<Rightarrow> Inr (arr_map radians (arr_map (\<lambda>a. 90 - a) (Vec v)))
            | Inl _ \<Rightarrow>
                if rng = None
                then Inl (AssertionError ''need to specify constant value for `azimuth`'')
                else
                  (case azimuth of
                     None \<Rightarrow> Inl (TypeError ''unsupported operand type(s) for -: int and NoneType'')
                   | Some a \<Rightarrow> Inr (Scalar (radians (90 - a)))))
      of Inl e \<Rightarrow> Inl e
       | Inr aa \<Rightarrow>
     (let ee = (case get_level_values d ''elevation'' of
                  Inr v \<Rightarrow> arr_map radians (Vec v)
                | Inl _ \<Rightarrow> Scalar (radians elevation))
      in if small_elevation_angles
         then Inr (arr_times rr (arr_map cos aa),
                   arr_times rr (arr_map sin aa),
                   arr_times rr ee)
         else Inr (arr_times (arr_times rr (arr_map cos aa)) (arr_map cos ee),
                   arr_times (arr_times rr (arr_map sin aa)) (arr_map cos ee),
                   arr_times rr (arr_map sin ee)))))"

text \<open>The entry of an operand that belongs to row \<open>i\<close>.\<close>

fun entry :: "arr \<Rightarrow> nat \<Rightarrow> real" where
  "entry (Scalar a) i = a"
| "entry (Vec v) i = v ! i"

subsection \<open>Wind estimator \<open>estimate_mean_wind\<close>\<close>

text \<open>
  The radial velocities: a \<open>pandas.Series\<close> under a multi-level index, one entry per
  row holding the index tuple and the velocity (\<open>None\<close> when missing).
\<close>

record series =
  snames :: "string list"
  srows :: "(real list \<times> real option) list"

definition s_level_values :: "series \<Rightarrow> string \<Rightarrow> error + real list" where
  "s_level_values s name =
     (case index_of name (snames s) of
        None \<Rightarrow> Inl (KeyError name)
      | Some k \<Rightarrow> Inr (map (\<lambda>(key, _). key ! k) (srows s)))"

text \<open>Indexing an array by a boolean array keeps the entries where it is true.\<close>

definition select :: "bool list \<Rightarrow> 'a list \<Rightarrow> 'a list" where
  "select sel xs = map snd (filter fst (zip sel xs))"

fun as_list :: "arr \<Rightarrow> real list" where
  "as_list (Vec v) = v"
| "as_list (Scalar a) = [a]"

text \<open>\<open>np.arctan2(y, x)\<close>\<close>

definition arctan2 :: "real \<Rightarrow> real \<Rightarrow> real" where
  "arctan2 y x =
     (if x > 0 then arctan (y / x)
      else if x < 0 then (if y \<ge> 0 then arctan (y / x) + pi else arctan (y / x) - pi)
      else if y > 0 then pi / 2
      else if y < 0 then - (pi / 2)
      else 0)"

text \<open>
  The elevation of the scan, in degrees (the \<open>try\<close> block that opens
  \<open>estimate_mean_wind\<close>): the elevation level of the key, which must hold a single
  value, or else the constant, which must be given.
\<close>

definition scan_elevation :: "series \<Rightarrow> real option \<Rightarrow> error + arr" where
  "scan_elevation doppler elevation =
     (case s_level_values doppler ''elevation'' of
        Inl _ \<Rightarrow>
          (case elevation of
             None \<Rightarrow> Inl (AssertionError ''PPI scan, need to specify elevation'')
           | Some e \<Rightarrow> Inr (Scalar e))
      | Inr v \<Rightarrow>
          (case v of
             [] \<Rightarrow> Inl (IndexError ''index 0 is out of bounds'')
           | e0 # _ \<Rightarrow>
               if list_all (\<lambda>e. e = e0) v then Inr (Vec v) else Inl (AssertionError [])))"

text \<open>The wind speed and the meteorological wind direction from the two coefficients.\<close>

definition wind_of :: "real \<times> real \<Rightarrow> real \<times> real" where
  "wind_of uv = (case uv of (U0, V0) \<Rightarrow> (sqrt (U0\<^sup>2 + V0\<^sup>2), 180 + degrees (arctan2 U0 V0)))"

text \<open>
  \<open>estimate_mean_wind(doppler, elevation)\<close>. The least-squares routine
  \<open>LinearRegression(fit_intercept=False).fit(LHS, doppler).coef_\<close> belongs to an
  external library and is the parameter \<open>fit\<close>: it takes the coefficient rows and the
  observations, and returns the two coefficients or raises.
\<close>

definition estimate_mean_wind ::
  "((real \<times> real) list \<Rightarrow> real option list \<Rightarrow> error + (real \<times> real)) \<Rightarrow>
   series \<Rightarrow> real option \<Rightarrow> error + (real \<times> real)" where
  "estimate_mean_wind fit doppler elevation =
     (case scan_elevation doppler elevation of
        Inl e \<Rightarrow> Inl e
      | Inr el_deg \<Rightarrow>
     (case s_level_values doppler ''azimuth'' of
        Inl e \<Rightarrow> Inl e
      | Inr az_deg \<Rightarrow>
     (let ee = arr_map radians el_deg;
          aa = arr_map radians (Vec az_deg);
          comp1 = as_list (arr_times (arr_map cos ee) (arr_map sin aa));
          comp2 = as_list (arr_times (arr_map cos ee) (arr_map cos aa));
          vals = map snd (srows doppler);
          missingvals = map (\<lambda>v. v = None) vals;
          keep = map Not missingvals;
          (comp1', comp2', vals') =
             (if list_ex id missingvals
              then (select keep comp1, select keep comp2, select keep vals)
              else (comp1, comp2, vals));
          LHS = zip comp1' comp2'
      in (case fit LHS vals' of
            Inl e \<Rightarrow> Inl e
          | Inr coef \<Rightarrow> Inr (wind_of coef)))))"

text \<open>
  The arc with its missing rows deleted outright: the comparand of the statement about
  missing observations.
\<close>

definition delete_missing_rows :: "series \<Rightarrow> series" where
  "delete_missing_rows s = s\<lparr>srows := filter (\<lambda>(_, v). v \<noteq> None) (srows s)\<rparr>"

text \<open>
  A model of the external routine in exact arithmetic, used where a concrete solver is
  needed: the least-squares solution of minimum norm for two coefficients, which is what
  \<open>scipy.linalg.lstsq\<close> returns behind \<open>LinearRegression\<close>; no samples, or a missing
  observation, is refused by the library's input validation.
\<close>

definition lstsq :: "(real \<times> real) list \<Rightarrow> real option list \<Rightarrow> error + (real \<times> real)" where
  "lstsq A y =
     (if A = [] then Inl (SolverError ''Found array with 0 sample(s)'')
      else if list_ex (\<lambda>v. v = None) y then Inl (SolverError ''Input y contains NaN'')
      else
        let b = map the y;
            sxx = sum_list (map (\<lambda>(p, q). p * p) A);
            sxy = sum_list (map (\<lambda>(p, q). p * q) A);
            syy = sum_list (map (\<lambda>(p, q). q * q) A);
            sxb = sum_list (map (\<lambda>((p, q), v). p * v) (zip A b));
            syb = sum_list (map (\<lambda>((p, q), v). q * v) (zip A b));
            det = sxx * syy - sxy * sxy;
            tr = sxx + syy
        in if det \<noteq> 0
           then Inr ((syy * sxb - sxy * syb) / det, (sxx * syb - sxy * sxb) / det)
           else if tr = 0 then Inr (0, 0)
           else Inr ((sxx * sxb + sxy * syb) / (tr * tr), (sxy * sxb + syy * syb) / (tr * tr)))"

subsection \<open>The loader \<open>GalionCornellPEIWEE\<close>\<close>

text \<open>
  The delimited-text table the loader reads: per row the columns \<open>range_gate\<close>,
  \<open>azimuth\<close> and \<open>elevation\<close>, and the fields of the further columns named by
  \<open>raw_columns\<close> (among them \<open>intensity\<close>; none of them is named \<open>range\<close>).
\<close>

record rawframe =
  raw_columns :: "string list"
  raw_rows :: "(real \<times> real \<times> real \<times> real option list) list"

text \<open>
  \<open>_load(fpath, minimum_range, range_gate_size)\<close>: the range of the gate centre becomes
  the first index level, the rows are sorted by their index tuple, and \<open>range_gate\<close>
  stays among the data columns.
\<close>

definition load :: "rawframe \<Rightarrow> real \<Rightarrow> real \<Rightarrow> dataframe" where
  "load raw minimum_range gate_size =
     \<lparr>names = [''range'', ''azimuth'', ''elevation''],
      columns = ''range_gate'' # raw_columns raw,
      rows = sort_key fst
               (map (\<lambda>(g, a, e, p).
                       ([minimum_range + g * gate_size + gate_size / 2, a, e], Some g # p))
                    (raw_rows raw))\<rparr>"

text \<open>Truth value of an optional tuple or list: \<open>None\<close> and the empty sequence are false.\<close>

definition truthy :: "'a list option \<Rightarrow> bool" where
  "truthy w = (case w of None \<Rightarrow> False | Some xs \<Rightarrow> xs \<noteq> [])"

definition mask_where :: "(real \<Rightarrow> bool) \<Rightarrow> real list \<Rightarrow> LidarData \<Rightarrow> LidarData" where
  "mask_where P allranges self = self\<lparr>df := mask_rows (map P allranges) (df self)\<rparr>"

text \<open>
  \<open>_filter_by_range(range_gates, ranges)\<close>. A window is \<open>None\<close> or a sequence whose two
  first entries are the bounds, each of them possibly \<open>None\<close>. The gate bounds index the
  per-row range values.
\<close>

definition filter_by_range ::
  "LidarData \<Rightarrow> int option list option \<Rightarrow> real option list option \<Rightarrow> error + LidarData" where
  "filter_by_range self range_gates ranges =
     (if \<not> (truthy range_gates \<or> truthy ranges)
      then Inl (AssertionError ''Specify range_gates or ranges'')
      else
      (case get_level_values (df self) ''range'' of
         Inl e \<Rightarrow> Inl e
       | Inr allranges \<Rightarrow>
      if truthy range_gates then
        (case py_nth (the range_gates) 0 of
           Inl e \<Rightarrow> Inl e
         | Inr g0 \<Rightarrow>
        (case (case g0 of
                 None \<Rightarrow> Inr self
               | Some i \<Rightarrow>
                   (case py_nth allranges i of
                      Inl e \<Rightarrow> Inl e
                    | Inr minrange \<Rightarrow> Inr (mask_where (\<lambda>x. x \<le> minrange) allranges self)))
         of Inl e \<Rightarrow> Inl e
          | Inr self1 \<Rightarrow>
        (case py_nth (the range_gates) 1 of
           Inl e \<Rightarrow> Inl e
         | Inr g1 \<Rightarrow>
        (case g1 of
           None \<Rightarrow> Inr self1
         | Some i \<Rightarrow>
             (case py_nth allranges i of
                Inl e \<Rightarrow> Inl e
              | Inr maxrange \<Rightarrow> Inr (mask_where (\<lambda>x. x \<ge> maxrange) allranges self1))))))
      else
        (case py_nth (the ranges) 0 of
           Inl e \<Rightarrow> Inl e
         | Inr lo \<Rightarrow>
        (let self1 = (case lo of None \<Rightarrow> self | Some b \<Rightarrow> mask_where (\<lambda>x. x < b) allranges self)
         in
        (case py_nth (the ranges) 1 of
           Inl e \<Rightarrow> Inl e
         | Inr hi \<Rightarrow>
             Inr (case hi of None \<Rightarrow> self1 | Some b \<Rightarrow> mask_where (\<lambda>x. x > b) allranges self1))))))"

text \<open>A comparison with a missing value is false.\<close>

definition below :: "real \<Rightarrow> real option \<Rightarrow> bool" where
  "below m x = (case x of None \<Rightarrow> False | Some v \<Rightarrow> v < m)"

definition above :: "real \<Rightarrow> real option \<Rightarrow> bool" where
  "above m x = (case x of None \<Rightarrow> False | Some v \<Rightarrow> v > m)"

text \<open>\<open>_filter_by_intensity(min_intensity, max_intensity)\<close>\<close>

definition filter_by_intensity ::
  "LidarData \<Rightarrow> real option \<Rightarrow> real option \<Rightarrow> error + LidarData" where
  "filter_by_intensity self min_intensity max_intensity =
     (case (case min_intensity of
              None \<Rightarrow> Inr self
            | Some m \<Rightarrow>
                (case column (df self) ''intensity'' of
                   Inl e \<Rightarrow> Inl e
                 | Inr v \<Rightarrow> Inr (self\<lparr>df := mask_rows (map (below m) v) (df self)\<rparr>)))
      of Inl e \<Rightarrow> Inl e
       | Inr self1 \<Rightarrow>
           (case max_intensity of
              None \<Rightarrow> Inr self1
            | Some m \<Rightarrow>
                (case column (df self1) ''intensity'' of
                   Inl e \<Rightarrow> Inl e
                 | Inr v \<Rightarrow> Inr (self1\<lparr>df := mask_rows (map (above m) v) (df self1)\<rparr>))))"

text \<open>
  \<open>GalionCornellPEIWEE.__init__(fpath, load_opts, range_gates, ranges, intensity_range,
  verbose)\<close>, with the two load options passed explicitly.
\<close>

definition GalionCornellPEIWEE_init ::
  "rawframe \<Rightarrow> real \<Rightarrow> real \<Rightarrow> int option list option \<Rightarrow> real option list option \<Rightarrow>
   real option \<times> real option \<Rightarrow> bool \<Rightarrow> error + LidarData" where
  "GalionCornellPEIWEE_init raw minimum_range gate_size range_gates ranges intensity_range v =
     (case LidarData_init (load raw minimum_range gate_size) v of
        Inl e \<Rightarrow> Inl e
      | Inr self \<Rightarrow>
     (case filter_by_range self range_gates ranges of
        Inl e \<Rightarrow> Inl e
      | Inr self1 \<Rightarrow> filter_by_intensity self1 (fst intensity_range) (snd intensity_range)))"

subsection \<open>Notions used in the statements\<close>

text \<open>
  The coordinate of row \<open>i\<close> along an axis: read from the index level of that name, or
  the constant passed for it when the key has no such level.
\<close>

definition coord :: "dataframe \<Rightarrow> string \<Rightarrow> real option \<Rightarrow> nat \<Rightarrow> real" where
  "coord d name const i =
     (case get_level_values d name of Inr v \<Rightarrow> v ! i | Inl _ \<Rightarrow> the const)"

definition no_axes :: "dataframe \<Rightarrow> bool" where
  "no_axes d \<longleftrightarrow> list_all (\<lambda>n. n \<notin> set (names d)) [''range'', ''azimuth'', ''elevation'']"

text \<open>
  The intensity of row \<open>i\<close> (missing when there is no such column), and the rows the
  intensity window excludes: those below the lower or above the upper bound, where it is
  given.
\<close>

definition intensity :: "dataframe \<Rightarrow> nat \<Rightarrow> real option" where
  "intensity d i = (case column d ''intensity'' of Inl _ \<Rightarrow> None | Inr v \<Rightarrow> v ! i)"

definition out_of_bounds :: "real option \<Rightarrow> real option \<Rightarrow> real option \<Rightarrow> bool" where
  "out_of_bounds min_intensity max_intensity x =
     (case x of
        None \<Rightarrow> False
      | Some y \<Rightarrow>
          (case min_intensity of None \<Rightarrow> False | Some m \<Rightarrow> y < m)
          \<or> (case max_intensity of None \<Rightarrow> False | Some m \<Rightarrow> y > m))"

text \<open>
  The rows of an arc whose velocity is present; for such a row, the elevation in degrees
  (from the key, or the constant) and the pair of regression coefficients
  \<open>(cos el sin az, cos el cos az)\<close>.
\<close>

definition present_rows :: "series \<Rightarrow> (real list \<times> real option) list" where
  "present_rows s = filter (\<lambda>(_, v). v \<noteq> None) (srows s)"

definition row_elevation :: "series \<Rightarrow> real option \<Rightarrow> real list \<Rightarrow> real" where
  "row_elevation s elevation key =
     (case index_of ''elevation'' (snames s) of Some j \<Rightarrow> key ! j | None \<Rightarrow> the elevation)"

definition row_azimuth :: "series \<Rightarrow> real list \<Rightarrow> real" where
  "row_azimuth s key = (case index_of ''azimuth'' (snames s) of Some j \<Rightarrow> key ! j | None \<Rightarrow> 0)"

definition coefficient_rows :: "series \<Rightarrow> real option \<Rightarrow> (real \<times> real) list" where
  "coefficient_rows s elevation =
     map (\<lambda>(key, _).
            (cos (radians (row_elevation s elevation key)) * sin (radians (row_azimuth s key)),
             cos (radians (row_elevation s elevation key)) * cos (radians (row_azimuth s key))))
         (present_rows s)"

text \<open>
  The elevation of the arc is known: the key has no elevation level and the constant is
  given, or the key has one, there is a row, and all rows are at the elevation of the
  first.
\<close>

definition elevation_known :: "series \<Rightarrow> real option \<Rightarrow> bool" where
  "elevation_known s elevation =
     (case s_level_values s ''elevation'' of
        Inl _ \<Rightarrow> elevation \<noteq> None
      | Inr v \<Rightarrow> v \<noteq> [] \<and> list_all (\<lambda>e. e = hd v) v)"

text \<open>
  An arc at a single shared elevation with an observation present: where the key has an
  elevation level, all rows are at the same elevation and some velocity is not missing.
\<close>

definition single_elevation_arc :: "series \<Rightarrow> bool" where
  "single_elevation_arc s =
     (case s_level_values s ''elevation'' of
        Inl _ \<Rightarrow> True
      | Inr v \<Rightarrow> list_all (\<lambda>e. e = hd v) v \<and> list_ex (\<lambda>(_, w). w \<noteq> None) (srows s))"

text \<open>
  A gate bound that indexes an existing row, counting from either end, or is left out;
  and a raw table on which loading and the construction of the container succeed.
\<close>

definition valid_gate :: "nat \<Rightarrow> int option \<Rightarrow> bool" where
  "valid_gate n g = (case g of None \<Rightarrow> True | Some i \<Rightarrow> - int n \<le> i \<and> i < int n)"

definition loaded :: "rawframe \<Rightarrow> real \<Rightarrow> real \<Rightarrow> bool \<Rightarrow> bool" where
  "loaded raw minimum_range gate_size v =
     (case LidarData_init (load raw minimum_range gate_size) v of Inl _ \<Rightarrow> False | Inr _ \<Rightarrow> True)"

text \<open>
  The gate the lookup selects for a query: the gate centred at the query, or else the
  first gate in ascending order whose right edge, as the arithmetic computes it, exceeds
  the query. A query lies in the gate around a centre: in the half-open interval between
  the two edges as computed.
\<close>

definition selected_gate :: "arith \<Rightarrow> real \<Rightarrow> real list \<Rightarrow> real \<Rightarrow> real option" where
  "selected_gate ar g l q =
     (if q \<in> set l then Some q else find (\<lambda>x. q < fadd ar x (fdiv ar g 2)) l)"

definition gate_contains :: "arith \<Rightarrow> real \<Rightarrow> real \<Rightarrow> real \<Rightarrow> bool" where
  "gate_contains ar g center q \<longleftrightarrow>
     fsub ar center (fdiv ar g 2) \<le> q \<and> q < fadd ar center (fdiv ar g 2)"

text \<open>
  The gate centres are uniformly spaced: each is the first plus a multiple of the
  difference of the first two, in exact arithmetic.
\<close>

definition uniform_gates :: "real list \<Rightarrow> bool" where
  "uniform_gates l \<longleftrightarrow> list_all (\<lambda>i. l ! i = l ! 0 + real i * (l ! 1 - l ! 0)) [0..<length l]"

subsection \<open>Example tables\<close>

text \<open>A volumetric scan with three uniformly spaced range gates and one missing field.\<close>

definition df_vol :: dataframe where
  "df_vol =
     \<lparr>names = [''range'', ''azimuth'', ''elevation''], columns = [''intensity''],
      rows = [([15, 0, 1], [Some 5]), ([15, 90, 1], [Some 7]), ([45, 0, 1], [Some 2]),
              ([45, 90, 1], [None]), ([75, 0, 1], [Some 9])]\<rparr>"

text \<open>A volumetric scan in which the gates at 75 are not available.\<close>

definition df_gap :: dataframe where
  "df_gap =
     \<lparr>names = [''range'', ''azimuth'', ''elevation''], columns = [''intensity''],
      rows = [([15, 0, 1], [Some 5]), ([45, 0, 1], [Some 2]), ([105, 0, 1], [Some 9])]\<rparr>"

text \<open>An RHI scan (no azimuth level), a key of the range alone, and a vertical scan.\<close>

definition df_rhi :: dataframe where
  "df_rhi =
     \<lparr>names = [''range'', ''elevation''], columns = [''intensity''],
      rows = [([15, 1], [Some 5]), ([15, 2], [Some 7]), ([45, 1], [Some 2]),
              ([45, 3], [Some 4])]\<rparr>"

definition df_range_only :: dataframe where
  "df_range_only =
     \<lparr>names = [''range''], columns = [''intensity''],
      rows = [([15], [Some 5]), ([45], [Some 2])]\<rparr>"

definition df_vert :: dataframe where
  "df_vert =
     \<lparr>names = [''azimuth'', ''elevation''], columns = [''intensity''],
      rows = [([0, 1], [Some 5]), ([90, 1], [Some 7]), ([180, 1], [Some 2])]\<rparr>"

text \<open>A volumetric scan with a single range gate.\<close>

definition df_single :: dataframe where
  "df_single =
     \<lparr>names = [''range'', ''azimuth'', ''elevation''], columns = [''intensity''],
      rows = [([15, 0, 1], [Some 5]), ([15, 90, 1], [Some 7])]\<rparr>"

text \<open>The container that construction yields for the RHI scan (built silently).\<close>

definition c_rhi :: LidarData where
  "c_rhi =
     \<lparr>verbose = False, df = df_rhi, RHI = True, PPI = False,
      range_gate_size = Some 30, rmin = Some 0, rmax = Some 60, printed = []\<rparr>"

text \<open>The container that construction yields for the first volumetric scan.\<close>

definition c_vol :: LidarData where
  "c_vol =
     \<lparr>verbose = False, df = df_vol, RHI = False, PPI = False,
      range_gate_size = Some 30, rmin = Some 0, rmax = Some 90, printed = []\<rparr>"

text \<open>
  An arc of three beams at elevation 0 with one velocity missing; an arc with a single
  observation, due east, under a key without elevation level; and two observations at
  the same azimuth.
\<close>

definition s_arc :: series where
  "s_arc =
     \<lparr>snames = [''range'', ''azimuth'', ''elevation''],
      srows = [([100, 0, 0], Some 3), ([100, 90, 0], None), ([100, 180, 0], Some (- 3))]\<rparr>"

definition s_one :: series where
  "s_one = \<lparr>snames = [''range'', ''azimuth''], srows = [([100, 90], Some 1)]\<rparr>"

definition s_same :: series where
  "s_same =
     \<lparr>snames = [''range'', ''azimuth'', ''elevation''],
      srows = [([100, 90, 0], Some 1), ([130, 90, 0], Some 3)]\<rparr>"

text \<open>A delimited-text table of three beams in two range gates.\<close>

definition raw0 :: rawframe where
  "raw0 =
     \<lparr>raw_columns = [''intensity''],
      raw_rows = [(0, 0, 1, [Some 5]), (1, 0, 1, [Some 2]), (0, 90, 1, [Some 7])]\<rparr>"

text \<open>The container that construction yields for the scan with the gap.\<close>

definition c_gap :: LidarData where
  "c_gap =
     \<lparr>verbose = False, df = df_gap, RHI = False, PPI = False,
      range_gate_size = Some 30, rmin = Some 0, rmax = Some 120, printed = []\<rparr>"

section \<open>Properties\<close>

subsection \<open>Basic facts about tables\<close>

lemma index_of_less: "index_of x xs = Some i \<Longrightarrow> i < length xs \<and> xs ! i = x"
  by (induction xs arbitrary: i) (auto split: if_splits option.splits)

lemma index_of_None: "index_of x xs = None \<longleftrightarrow> x \<notin> set xs"
  by (induction xs) (auto split: option.splits)

lemma get_level_values_cases:
  "(n \<notin> set (names d) \<and> get_level_values d n = Inl (KeyError n))
   \<or> (n \<in> set (names d) \<and> (\<exists>v. get_level_values d n = Inr v \<and> length v = length (rows d)))"
proof (cases "n \<in> set (names d)")
  case True
  then obtain k where "index_of n (names d) = Some k"
    using index_of_None [of n "names d"] by (cases "index_of n (names d)") auto
  with True show ?thesis
    by (simp add: get_level_values_def)
next
  case False
  then have "index_of n (names d) = None"
    by (simp add: index_of_None)
  with False show ?thesis
    by (simp add: get_level_values_def)
qed

lemma wf_df_row:
  "wf_df d \<Longrightarrow> i < length (rows d) \<Longrightarrow>
     length (fst (rows d ! i)) = length (names d) \<and> length (snd (rows d ! i)) = length (columns d)"
  by (cases "rows d ! i") (auto simp: wf_df_def list_all_length)

lemma column_length: "column d n = Inr v \<Longrightarrow> length v = length (rows d)"
  by (auto simp: column_def split: option.splits)

lemma mask_rows_names [simp]: "names (mask_rows sel d) = names d"
  and mask_rows_columns [simp]: "columns (mask_rows sel d) = columns d"
  and mask_rows_rows [simp]: "rows (mask_rows sel d) = mask_list sel (rows d)"
  by (simp_all add: mask_rows_def)

lemma mask_list_length: "length sel = length rs \<Longrightarrow> length (mask_list sel rs) = length rs"
  by (simp add: mask_list_def)

lemma mask_list_nth:
  "length sel = length rs \<Longrightarrow> i < length rs \<Longrightarrow>
     mask_list sel rs ! i =
       (fst (rs ! i), if sel ! i then replicate (length (snd (rs ! i))) None else snd (rs ! i))"
  by (auto simp: mask_list_def map_replicate_const split: prod.splits)

lemma mask_list_keys: "length sel = length rs \<Longrightarrow> map fst (mask_list sel rs) = map fst rs"
  by (rule nth_equalityI) (simp_all add: mask_list_length mask_list_nth)

lemma mask_list_twice:
  assumes "length s1 = length rs" "length s2 = length rs"
  shows "mask_list s2 (mask_list s1 rs) = mask_list (map (\<lambda>(a, b). a \<or> b) (zip s1 s2)) rs"
  using assms by (intro nth_equalityI) (auto simp: mask_list_length mask_list_nth)

lemma mask_list_none: "length v = length rs \<Longrightarrow> mask_list (map (\<lambda>x. False) v) rs = rs"
  by (rule nth_equalityI) (simp_all add: mask_list_length mask_list_nth)

text \<open>Masking rows changes a column exactly at the masked rows.\<close>

lemma column_mask_rows:
  assumes "wf_df d" "column d n = Inr v" "length sel = length (rows d)"
  shows "column (mask_rows sel d) n = Inr (map (\<lambda>(b, x). if b then None else x) (zip sel v))"
proof -
  from assms(2) obtain j where j: "index_of n (columns d) = Some j"
    and v: "v = map (\<lambda>(_, p). p ! j) (rows d)"
    by (auto simp: column_def split: option.splits)
  from index_of_less [OF j] have jl: "j < length (columns d)"
    by simp
  have "map (\<lambda>(_, p). p ! j) (mask_list sel (rows d)) =
          map (\<lambda>(b, x). if b then None else x) (zip sel v)"
    using jl assms(3) wf_df_row [OF assms(1)]
    by (intro nth_equalityI) (auto simp: v mask_list_length mask_list_nth split: prod.splits)
  then show ?thesis
    by (simp add: column_def j)
qed

subsection \<open>The coordinate transform\<close>

text \<open>
  Claim C5. For a table without an azimuth level, \<open>calc_xyz\<close> called without an azimuth
  constant is meant to fail with an assertion, as it does for a missing range. The
  assertion guarding the azimuth tests the range constant instead: on the RHI table,
  with a range constant supplied and no azimuth constant, the assertion passes and the
  call fails with a \<open>TypeError\<close> on \<open>90 - None\<close>.
\<close>

theorem calc_xyz_missing_azimuth_TypeError:
  "calc_xyz df_rhi (Some 100) None 0 False =
     Inl (TypeError ''unsupported operand type(s) for -: int and NoneType'')"
  by (simp add: calc_xyz_def get_level_values_def df_rhi_def)

text \<open>The sibling path: a missing range with no range constant fails with the assertion.\<close>

lemma calc_xyz_missing_range_AssertionError:
  "calc_xyz df_vert None (Some 0) 0 False =
     Inl (AssertionError ''need to specify constant value for `range`'')"
  by (simp add: calc_xyz_def get_level_values_def df_vert_def)

text \<open>
  Claim C2. \<open>calc_xyz\<close> is meant to return \<open>x\<close>, \<open>y\<close>, \<open>z\<close> for every range, azimuth
  and elevation, the azimuth being a constant where the key has no azimuth level. On the
  RHI table, whose key holds the range, with the azimuth given as the constant 90 and
  no range constant, it returns nothing: the assertion that guards the azimuth tests
  the range constant, and fails though the azimuth is there.
\<close>

theorem calc_xyz_azimuth_constant_AssertionError:
  "get_level_values df_rhi ''range'' = Inr [15, 15, 45, 45]
   \<and> get_level_values df_rhi ''azimuth'' = Inl (KeyError ''azimuth'')
   \<and> calc_xyz df_rhi None (Some 90) 0 False =
       Inl (AssertionError ''need to specify constant value for `azimuth`'')"
  by (simp add: calc_xyz_def get_level_values_def df_rhi_def)

text \<open>
  Past that assertion the transform is as described. Whenever the range is available,
  and the azimuth is in the key or both constants are given, \<open>calc_xyz\<close> returns, and
  for every row: with \<open>az\<close> mapped to \<open>radians (90 - az)\<close> and \<open>el\<close> to radians,
  \<open>x = r cos az\<close>, \<open>y = r sin az\<close>, \<open>z = r el\<close> under the small-angle option, and
  \<open>x = r cos az cos el\<close>, \<open>y = r sin az cos el\<close>, \<open>z = r sin el\<close> otherwise. When the key
  holds none of the three axes the results are scalars and the same formulas hold of
  the constants.
\<close>

lemma calc_xyz_formula:
  assumes "''range'' \<in> set (names d) \<or> rng \<noteq> None"
    and "''azimuth'' \<in> set (names d) \<or> (rng \<noteq> None \<and> azimuth \<noteq> None)"
  shows "\<exists>x y z. calc_xyz d rng azimuth elevation small = Inr (x, y, z) \<and>
           (\<forall>i. i < length (rows d) \<or> no_axes d \<longrightarrow>
              (let rr = coord d ''range'' rng i;
                   aa = radians (90 - coord d ''azimuth'' azimuth i);
                   ee = radians (coord d ''elevation'' (Some elevation) i)
               in entry x i = (if small then rr * cos aa else rr * cos aa * cos ee)
                  \<and> entry y i = (if small then rr * sin aa else rr * sin aa * cos ee)
                  \<and> entry z i = (if small then rr * ee else rr * sin ee)))"
  using assms get_level_values_cases [of "''range''" d]
    get_level_values_cases [of "''azimuth''" d] get_level_values_cases [of "''elevation''" d]
  by (auto simp: calc_xyz_def coord_def no_axes_def arr_times_def Let_def)

text \<open>
  The second row of the volumetric scan: range 15, azimuth 90 (due east), elevation 1.
\<close>

lemma calc_xyz_formula_example:
  "''range'' \<in> set (names df_vol) \<and> ''azimuth'' \<in> set (names df_vol)
   \<and> (\<exists>x y z. calc_xyz df_vol None None 0 False = Inr (x, y, z)
         \<and> entry x 1 = 15 * cos (radians 1)
         \<and> entry y 1 = 0
         \<and> entry z 1 = 15 * sin (radians 1))"
proof -
  have n: "''range'' \<in> set (names df_vol)" "''azimuth'' \<in> set (names df_vol)"
    by (simp_all add: df_vol_def)
  have c: "coord df_vol ''range'' None (Suc 0) = 15"
    "coord df_vol ''azimuth'' None (Suc 0) = 90"
    "coord df_vol ''elevation'' (Some 0) (Suc 0) = 1"
    by (simp_all add: coord_def get_level_values_def df_vol_def)
  have l: "(1::nat) < length (rows df_vol)"
    by (simp add: df_vol_def)
  from calc_xyz_formula [of df_vol None None 0 False] n
  obtain x y z where xyz: "calc_xyz df_vol None None 0 False = Inr (x, y, z)"
    and all: "\<forall>i. i < length (rows df_vol) \<or> no_axes df_vol \<longrightarrow>
              (let rr = coord df_vol ''range'' None i;
                   aa = radians (90 - coord df_vol ''azimuth'' None i);
                   ee = radians (coord df_vol ''elevation'' (Some 0) i)
               in entry x i = (if False then rr * cos aa else rr * cos aa * cos ee)
                  \<and> entry y i = (if False then rr * sin aa else rr * sin aa * cos ee)
                  \<and> entry z i = (if False then rr * ee else rr * sin ee))"
    by blast
  from all l have "entry x 1 = 15 * cos (radians 1)" "entry y 1 = 0"
    "entry z 1 = 15 * sin (radians 1)"
    by (simp_all add: c Let_def radians_def)
  with n xyz show ?thesis
    by blast
qed

subsection \<open>The wind estimator\<close>

lemma select_map: "select (map P xs) (map f xs) = map f (filter P xs)"
  by (induction xs) (simp_all add: select_def)

lemma s_level_values_cases:
  "(n \<notin> set (snames s) \<and> index_of n (snames s) = None \<and> s_level_values s n = Inl (KeyError n))
   \<or> (\<exists>j. index_of n (snames s) = Some j
          \<and> s_level_values s n = Inr (map (\<lambda>(key, _). key ! j) (srows s)))"
proof (cases "index_of n (snames s)")
  case None
  moreover from None have "n \<notin> set (snames s)"
    by (simp add: index_of_None)
  ultimately show ?thesis
    by (simp add: s_level_values_def)
next
  case (Some j)
  then show ?thesis
    by (simp add: s_level_values_def)
qed

text \<open>
  What the estimator computes, row by row: once the elevation is known and the key has
  an azimuth level, the solver is handed the coefficient rows and the velocities of the
  rows whose velocity is present, and its outcome is passed on.
\<close>

lemma estimate_mean_wind_rows:
  assumes "elevation_known s elevation" and "''azimuth'' \<in> set (snames s)"
  shows "estimate_mean_wind fit s elevation =
           (case fit (coefficient_rows s elevation) (map snd (present_rows s)) of
              Inl e \<Rightarrow> Inl e
            | Inr coef \<Rightarrow> Inr (wind_of coef))"
proof -
  let ?rows = "srows s"
  let ?P = "\<lambda>(key :: real list, v :: real option). v \<noteq> None"
  let ?c1 = "\<lambda>(key, v :: real option).
      cos (radians (row_elevation s elevation key)) * sin (radians (row_azimuth s key))"
  let ?c2 = "\<lambda>(key, v :: real option).
      cos (radians (row_elevation s elevation key)) * cos (radians (row_azimuth s key))"
  from assms(2) obtain ka where ka: "index_of ''azimuth'' (snames s) = Some ka"
    and az: "s_level_values s ''azimuth'' = Inr (map (\<lambda>(key, _). key ! ka) ?rows)"
    using s_level_values_cases [of "''azimuth''" s] by auto
  obtain el_deg where el: "scan_elevation s elevation = Inr el_deg"
    and c1: "as_list (arr_times (arr_map cos (arr_map radians el_deg))
               (arr_map sin (arr_map radians (Vec (map (\<lambda>(key, _). key ! ka) ?rows))))) = map ?c1 ?rows"
    and c2: "as_list (arr_times (arr_map cos (arr_map radians el_deg))
               (arr_map cos (arr_map radians (Vec (map (\<lambda>(key, _). key ! ka) ?rows))))) = map ?c2 ?rows"
  proof -
    from s_level_values_cases [of "''elevation''" s]
    show ?thesis
    proof (elim disjE conjE exE)
      assume n: "index_of ''elevation'' (snames s) = None"
        and l: "s_level_values s ''elevation'' = Inl (KeyError ''elevation'')"
      from assms(1) l obtain e where e: "elevation = Some e"
        by (auto simp: elevation_known_def)
      show ?thesis
        by (rule that [of "Scalar e"])
           (auto simp: scan_elevation_def l e arr_times_def row_elevation_def n row_azimuth_def ka)
    next
      fix j
      assume j: "index_of ''elevation'' (snames s) = Some j"
        and l: "s_level_values s ''elevation'' = Inr (map (\<lambda>(key, _). key ! j) ?rows)"
      let ?v = "map (\<lambda>(key, _ :: real option). key ! j) ?rows"
      from assms(1) l have ne: "?v \<noteq> []" and eq: "list_all (\<lambda>e. e = hd ?v) ?v"
        by (auto simp: elevation_known_def)
      have "scan_elevation s elevation = Inr (Vec ?v)"
        using ne eq by (cases ?v) (auto simp: scan_elevation_def l)
      then show ?thesis
        by (rule that)
           (auto simp: arr_times_def row_elevation_def j row_azimuth_def ka
              intro!: nth_equalityI split: prod.splits)
    qed
  qed
  have keep: "map Not (map (\<lambda>v. v = None) (map snd ?rows)) = map ?P ?rows"
    by (auto split: prod.splits)
  have vals: "map snd ?rows = map snd ?rows" ..
  have pres: "filter ?P ?rows = present_rows s"
    by (simp add: present_rows_def)
  have zipmap: "\<And>xs. zip (map ?c1 xs) (map ?c2 xs) = map (\<lambda>x. (?c1 x, ?c2 x)) xs"
    by (simp add: zip_map_map zip_same_conv_map)
  have coef: "map (\<lambda>x. (?c1 x, ?c2 x)) (present_rows s) = coefficient_rows s elevation"
    by (auto simp: coefficient_rows_def split: prod.splits)
  show ?thesis
  proof (cases "list_ex id (map (\<lambda>v. v = None) (map snd ?rows))")
    case True
    show ?thesis
      unfolding estimate_mean_wind_def el az
      by (simp only: sum.case Let_def c1 c2 True if_True prod.case keep select_map pres zipmap coef)
  next
    case False
    then have "present_rows s = ?rows"
      by (auto simp: present_rows_def list_ex_iff filter_id_conv)
    then have coef': "map (\<lambda>x. (?c1 x, ?c2 x)) ?rows = coefficient_rows s elevation"
      using coef by simp
    show ?thesis
      unfolding estimate_mean_wind_def el az
      by (simp only: sum.case Let_def c1 c2 False if_False prod.case zipmap coef'
          \<open>present_rows s = ?rows\<close>)
  qed
qed


lemma delete_missing_rows_simps [simp]:
  "snames (delete_missing_rows s) = snames s"
  "srows (delete_missing_rows s) = present_rows s"
  "present_rows (delete_missing_rows s) = present_rows s"
  by (simp_all add: delete_missing_rows_def present_rows_def)

lemma coefficient_rows_delete:
  "coefficient_rows (delete_missing_rows s) elevation = coefficient_rows s elevation"
  by (simp add: coefficient_rows_def row_elevation_def row_azimuth_def)

lemma scan_elevation_known:
  "elevation_known s elevation \<longleftrightarrow> (\<exists>y. scan_elevation s elevation = Inr y)"
proof (cases "s_level_values s ''elevation''")
  case (Inl e)
  then show ?thesis
    by (cases elevation) (simp_all add: elevation_known_def scan_elevation_def)
next
  case (Inr v)
  then show ?thesis
    by (cases v) (simp_all add: elevation_known_def scan_elevation_def)
qed

lemma estimate_mean_wind_no_elevation:
  "\<not> elevation_known s elevation \<Longrightarrow>
     estimate_mean_wind fit s elevation =
       (case scan_elevation s elevation of Inl e \<Rightarrow> Inl e | Inr _ \<Rightarrow> Inl (KeyError []))"
  by (cases "scan_elevation s elevation") (simp_all add: scan_elevation_known estimate_mean_wind_def)

lemma estimate_mean_wind_no_azimuth:
  assumes "elevation_known s elevation" and "''azimuth'' \<notin> set (snames s)"
  shows "estimate_mean_wind fit s elevation = Inl (KeyError ''azimuth'')"
proof -
  from assms(1) obtain y where "scan_elevation s elevation = Inr y"
    by (auto simp: scan_elevation_known)
  moreover from assms(2) have "s_level_values s ''azimuth'' = Inl (KeyError ''azimuth'')"
    using s_level_values_cases [of "''azimuth''" s] by (auto simp: index_of_None [symmetric])
  ultimately show ?thesis
    by (simp add: estimate_mean_wind_def)
qed

lemma elevation_known_delete:
  assumes "single_elevation_arc s"
  shows "elevation_known (delete_missing_rows s) elevation = elevation_known s elevation"
    and "\<not> elevation_known s elevation \<Longrightarrow>
           scan_elevation (delete_missing_rows s) elevation = scan_elevation s elevation"
proof -
  from s_level_values_cases [of "''elevation''" s]
  have "elevation_known (delete_missing_rows s) elevation = elevation_known s elevation
    \<and> (\<not> elevation_known s elevation \<longrightarrow>
           scan_elevation (delete_missing_rows s) elevation = scan_elevation s elevation)"
  proof (elim disjE conjE exE)
    assume "index_of ''elevation'' (snames s) = None"
    then show ?thesis
      by (simp add: elevation_known_def scan_elevation_def s_level_values_def)
  next
    fix j
    assume j: "index_of ''elevation'' (snames s) = Some j"
      and l: "s_level_values s ''elevation'' = Inr (map (\<lambda>(key, _). key ! j) (srows s))"
    let ?f = "\<lambda>(key :: real list, _ :: real option). key ! j"
    from assms l have eq: "\<forall>x \<in> set (srows s). ?f x = hd (map ?f (srows s))"
      and ex: "present_rows s \<noteq> []"
      by (auto simp: single_elevation_arc_def list_all_iff list_ex_iff present_rows_def
          filter_empty_conv)
    from ex have ne: "srows s \<noteq> []"
      by (auto simp: present_rows_def)
    have sub: "set (present_rows s) \<subseteq> set (srows s)"
      by (auto simp: present_rows_def)
    have "hd (map ?f (present_rows s)) \<in> ?f ` set (present_rows s)"
      using ex by (cases "present_rows s") auto
    then obtain x where x: "x \<in> set (present_rows s)" "hd (map ?f (present_rows s)) = ?f x"
      by blast
    from x(1) sub have "x \<in> set (srows s)"
      by blast
    with eq x(2) have hd_eq: "hd (map ?f (present_rows s)) = hd (map ?f (srows s))"
      by simp
    have k1: "elevation_known s elevation"
      using eq ne by (simp add: elevation_known_def l list_all_iff)
    have k2: "elevation_known (delete_missing_rows s) elevation"
      using eq sub ex hd_eq
      by (auto simp: elevation_known_def s_level_values_def j list_all_iff)
    from k1 k2 show ?thesis
      by simp
  qed
  then show "elevation_known (delete_missing_rows s) elevation = elevation_known s elevation"
    and "\<not> elevation_known s elevation \<Longrightarrow>
           scan_elevation (delete_missing_rows s) elevation = scan_elevation s elevation"
    by simp_all
qed

text \<open>
  Claim C3. For every arc at a single shared elevation with an observation present, and
  for every least-squares routine: the rows whose velocity is missing are taken out of
  the observations and of both coefficient columns before the fit, which is made on the
  rows that are present alone; and the estimate is the same as the estimate from the
  arc with the missing rows deleted outright.
\<close>

theorem estimate_mean_wind_missing:
  assumes "single_elevation_arc s"
  shows "estimate_mean_wind fit s elevation =
           estimate_mean_wind fit (delete_missing_rows s) elevation
       \<and> srows (delete_missing_rows s) = present_rows s
       \<and> list_all (\<lambda>(_, v). v \<noteq> None) (present_rows s)
       \<and> estimate_mean_wind fit s elevation =
           (if \<not> elevation_known s elevation
            then Inl (AssertionError ''PPI scan, need to specify elevation'')
            else if ''azimuth'' \<notin> set (snames s) then Inl (KeyError ''azimuth'')
            else (case fit (coefficient_rows s elevation) (map snd (present_rows s)) of
                    Inl e \<Rightarrow> Inl e
                  | Inr coef \<Rightarrow> Inr (wind_of coef)))"
proof -
  have same: "estimate_mean_wind fit s elevation =
           estimate_mean_wind fit (delete_missing_rows s) elevation"
  proof (cases "elevation_known s elevation")
    case False
    with elevation_known_delete [OF assms, of elevation] show ?thesis
      by (simp add: estimate_mean_wind_no_elevation)
  next
    case True
    with elevation_known_delete(1) [OF assms, of elevation]
    have known: "elevation_known (delete_missing_rows s) elevation"
      by simp
    show ?thesis
    proof (cases "''azimuth'' \<in> set (snames s)")
      case False
      with True known show ?thesis
        by (simp add: estimate_mean_wind_no_azimuth)
    next
      case az: True
      then have az': "''azimuth'' \<in> set (snames (delete_missing_rows s))"
        by simp
      show ?thesis
        by (simp add: estimate_mean_wind_rows [OF True az]
            estimate_mean_wind_rows [OF known az'] coefficient_rows_delete)
    qed
  qed
  have rows: "srows (delete_missing_rows s) = present_rows s"
    "list_all (\<lambda>(_, v). v \<noteq> None) (present_rows s)"
    by (auto simp: present_rows_def list_all_iff)
  have val: "estimate_mean_wind fit s elevation =
           (if \<not> elevation_known s elevation
            then Inl (AssertionError ''PPI scan, need to specify elevation'')
            else if ''azimuth'' \<notin> set (snames s) then Inl (KeyError ''azimuth'')
            else (case fit (coefficient_rows s elevation) (map snd (present_rows s)) of
                    Inl e \<Rightarrow> Inl e
                  | Inr coef \<Rightarrow> Inr (wind_of coef)))"
  proof (cases "elevation_known s elevation")
    case False
    from s_level_values_cases [of "''elevation''" s]
    have "scan_elevation s elevation =
            Inl (AssertionError ''PPI scan, need to specify elevation'')"
    proof (elim disjE conjE exE)
      assume "s_level_values s ''elevation'' = Inl (KeyError ''elevation'')"
      with False show ?thesis
        by (simp add: elevation_known_def scan_elevation_def)
    next
      fix j
      assume l: "s_level_values s ''elevation'' = Inr (map (\<lambda>(key, _). key ! j) (srows s))"
      with assms have "srows s \<noteq> []"
        by (auto simp: single_elevation_arc_def list_ex_iff)
      with assms l False show ?thesis
        by (simp add: single_elevation_arc_def elevation_known_def)
    qed
    with False show ?thesis
      by (simp add: estimate_mean_wind_no_elevation)
  next
    case True
    then show ?thesis
      by (cases "''azimuth'' \<in> set (snames s)")
         (simp_all add: estimate_mean_wind_no_azimuth estimate_mean_wind_rows)
  qed
  from same rows val show ?thesis
    by simp
qed

lemma single_s_arc: "single_elevation_arc s_arc"
  by (simp add: single_elevation_arc_def s_level_values_def s_arc_def)

lemma known_s_arc: "elevation_known s_arc None" "''azimuth'' \<in> set (snames s_arc)"
  by (simp_all add: elevation_known_def s_level_values_def s_arc_def)

lemma coef_s_arc:
  "present_rows s_arc = [([100, 0, 0], Some 3), ([100, 180, 0], Some (- 3))]"
  "coefficient_rows s_arc None = [(0, 1), (0, - 1)]"
  by (simp_all add: coefficient_rows_def present_rows_def s_arc_def row_elevation_def
      row_azimuth_def radians_def)

lemma lstsq_arc: "lstsq [(0, 1), (0, - 1)] [Some 3, Some (- 3)] = Inr (0, 3)"
  by (simp add: lstsq_def)

lemma wind_arc: "wind_of (0, 3) = (3, 180)"
  by (simp add: wind_of_def arctan2_def degrees_def)

text \<open>
  The arc of three beams, whose velocity due east is missing: the fit is made on the
  beams due north and due south, and finds 3 m/s from 180 degrees, with the missing row
  in place as with the row deleted.
\<close>

theorem estimate_mean_wind_missing_witness:
  "single_elevation_arc s_arc
   \<and> srows (delete_missing_rows s_arc) = [([100, 0, 0], Some 3), ([100, 180, 0], Some (- 3))]
   \<and> coefficient_rows s_arc None = [(0, 1), (0, - 1)]
   \<and> estimate_mean_wind lstsq s_arc None = Inr (3, 180)
   \<and> estimate_mean_wind lstsq (delete_missing_rows s_arc) None = Inr (3, 180)"
proof -
  from estimate_mean_wind_missing [OF single_s_arc, of lstsq None]
  have same: "estimate_mean_wind lstsq (delete_missing_rows s_arc) None =
      estimate_mean_wind lstsq s_arc None"
    and val: "estimate_mean_wind lstsq s_arc None = Inr (3, 180)"
    and del: "srows (delete_missing_rows s_arc) = present_rows s_arc"
    by (auto simp: known_s_arc coef_s_arc lstsq_arc wind_arc)
  from same val del single_s_arc show ?thesis
    by (simp add: coef_s_arc)
qed

text \<open>
  Claim C6, as the code has it. The estimator makes no check for a degenerate arc: for
  every arc whose elevation is known and whose key has an azimuth level, with few or
  many observations, at distinct azimuths or not, it hands the rows that are present to
  the least-squares routine and returns the speed and direction of whatever
  coefficients come back, or the error the routine raises.
\<close>

theorem estimate_mean_wind_propagates:
  assumes "elevation_known s elevation" and "''azimuth'' \<in> set (snames s)"
  shows "estimate_mean_wind fit s elevation =
           (case fit (coefficient_rows s elevation) (map snd (present_rows s)) of
              Inl e \<Rightarrow> Inl e
            | Inr coef \<Rightarrow> Inr (wind_of coef))"
  using assms by (rule estimate_mean_wind_rows)

lemma known_s_one: "elevation_known s_one (Some 0)"
  by (simp add: elevation_known_def s_level_values_def s_one_def)

lemma az_s_one: "''azimuth'' \<in> set (snames s_one)"
  by (simp add: s_one_def)

lemma coef_s_one: "coefficient_rows s_one (Some 0) = [(1, 0)]" "map snd (present_rows s_one) = [Some 1]"
  by (simp_all add: coefficient_rows_def present_rows_def s_one_def row_elevation_def
      row_azimuth_def radians_def)

lemma lstsq_one: "lstsq [(1, 0)] [Some 1] = Inr (1, 0)"
  by (simp add: lstsq_def)

lemma wind_one: "wind_of (1, 0) = (1, 270)"
  by (simp add: wind_of_def arctan2_def degrees_def)

text \<open>
  A degenerate arc, a single observation of 1 m/s due east at elevation 0: the routine
  returns the coefficients (1, 0), and the estimate is 1 m/s from 270 degrees.
\<close>

theorem estimate_mean_wind_propagates_witness:
  "elevation_known s_one (Some 0) \<and> ''azimuth'' \<in> set (snames s_one)
   \<and> estimate_mean_wind lstsq s_one (Some 0) = Inr (1, 270)"
  using estimate_mean_wind_propagates [OF known_s_one az_s_one, of lstsq] known_s_one az_s_one
  by (simp add: coef_s_one lstsq_one wind_one)

lemma known_s_same: "elevation_known s_same None"
  by (simp add: elevation_known_def s_level_values_def s_same_def)

lemma az_s_same: "''azimuth'' \<in> set (snames s_same)"
  by (simp add: s_same_def)

lemma coef_s_same:
  "coefficient_rows s_same None = [(1, 0), (1, 0)]"
  "map snd (present_rows s_same) = [Some 1, Some 3]"
  by (simp_all add: coefficient_rows_def present_rows_def s_same_def row_elevation_def
      row_azimuth_def radians_def)

lemma lstsq_same: "lstsq [(1, 0), (1, 0)] [Some 1, Some 3] = Inr (2, 0)"
  by (simp add: lstsq_def)

lemma wind_same: "wind_of (2, 0) = (2, 270)"
  by (simp add: wind_of_def arctan2_def degrees_def)

text \<open>
  Claim C6, as stated, asks for an explicit failure on a degenerate arc. With the
  minimum-norm least-squares routine, an arc of a single observation and an arc of two
  observations at the same azimuth both yield a wind estimate, and no error.
\<close>

theorem estimate_mean_wind_degenerate_arcs:
  "length (srows s_one) = 1
   \<and> estimate_mean_wind lstsq s_one (Some 0) = Inr (1, 270)
   \<and> map (\<lambda>(key, _). key ! 1) (srows s_same) = [90, 90]
   \<and> estimate_mean_wind lstsq s_same None = Inr (2, 270)"
proof -
  have "length (srows s_one) = 1" "map (\<lambda>(key, _). key ! 1) (srows s_same) = [90, 90]"
    by (simp_all add: s_one_def s_same_def)
  moreover have "estimate_mean_wind lstsq s_one (Some 0) = Inr (1, 270)"
    by (simp add: estimate_mean_wind_rows [OF known_s_one az_s_one] coef_s_one lstsq_one wind_one)
  moreover have "estimate_mean_wind lstsq s_same None = Inr (2, 270)"
    by (simp add: estimate_mean_wind_rows [OF known_s_same az_s_same] coef_s_same lstsq_same
        wind_same)
  ultimately show ?thesis
    by simp
qed

subsection \<open>Construction of the container\<close>

lemma check_coordinates_never_fails: "\<exists>self'. check_coordinates self = Inr self'"
  by (simp add: check_coordinates_def Let_def)

text \<open>
  Claim C4. An axis combination other than the four valid ones is meant to raise the
  error that names the index levels. The branch that raises is never reached: a key
  holding the range alone has no azimuth, so it is taken for an RHI scan; construction
  succeeds, prints the RHI message and sets the RHI flag.
\<close>

theorem LidarData_init_range_only_is_RHI:
  "LidarData_init df_range_only True =
     Inr \<lparr>verbose = True, df = df_range_only, RHI = True, PPI = False,
          range_gate_size = Some 30, rmin = Some 0, rmax = Some 60,
          printed = [Loaded ''RHI scan loaded'']\<rparr>"
  by (simp add: LidarData_init_def check_data_def check_coordinates_def check_ranges_def
      say_def levels_def df_range_only_def Let_def)

lemma check_coordinates_keeps:
  "check_coordinates self = Inr self' \<Longrightarrow>
     df self' = df self \<and> verbose self' = verbose self
     \<and> range_gate_size self' = range_gate_size self"
  by (auto simp: check_coordinates_def Let_def say_def split: if_splits)

text \<open>Construction, with the two halves of \<open>_check_data\<close> put together.\<close>

lemma LidarData_init_unfold:
  "LidarData_init d v =
     (case levels d 0 of
        Inl e \<Rightarrow> Inl e
      | Inr l \<Rightarrow>
          if length l < 2 then Inl (IndexError ''index 1 is out of bounds'')
          else (case check_coordinates
                       \<lparr>verbose = v, df = d, RHI = False, PPI = False,
                        range_gate_size = None, rmin = None, rmax = None, printed = []\<rparr> of
                  Inl e \<Rightarrow> Inl e
                | Inr s \<Rightarrow>
                    Inr (s\<lparr>range_gate_size := Some (l ! 1 - l ! 0),
                           rmin := Some (l ! 0 - (l ! 1 - l ! 0) / 2),
                           rmax := Some (last l + (l ! 1 - l ! 0) / 2)\<rparr>)))"
proof -
  obtain s where s:
    "check_coordinates \<lparr>verbose = v, df = d, RHI = False, PPI = False,
       range_gate_size = None, rmin = None, rmax = None, printed = []\<rparr> = Inr s"
    using check_coordinates_never_fails by blast
  from check_coordinates_keeps [OF s] have "df s = d" "range_gate_size s = None"
    by simp_all
  then show ?thesis
    by (simp add: LidarData_init_def check_data_def s check_ranges_def Let_def split: sum.splits)
qed

lemma levels_df_vert: "levels df_vert 0 = Inr [0, 90, 180]"
  by (simp add: levels_def df_vert_def)

lemma levels_df_single: "levels df_single 0 = Inr [15]"
  by (simp add: levels_def df_single_def)

text \<open>
  Claim C10, as the code has it. Construction reads the first index level, whatever axis
  it holds: with fewer than two values there it fails with the out-of-bounds
  \<open>IndexError\<close>, for every combination of axes; otherwise the gate size is the
  difference of the first two entries, \<open>rmin\<close> is the first entry minus half the gate
  size, and \<open>rmax\<close> is the last entry plus half the gate size.
\<close>

theorem LidarData_init_first_level:
  assumes "levels d 0 = Inr l"
  shows "if length l < 2
         then LidarData_init d v = Inl (IndexError ''index 1 is out of bounds'')
         else \<exists>c. LidarData_init d v = Inr c \<and> df c = d
                \<and> range_gate_size c = Some (l ! 1 - l ! 0)
                \<and> rmin c = Some (l ! 0 - (l ! 1 - l ! 0) / 2)
                \<and> rmax c = Some (last l + (l ! 1 - l ! 0) / 2)"
proof -
  obtain s where s:
    "check_coordinates \<lparr>verbose = v, df = d, RHI = False, PPI = False,
       range_gate_size = None, rmin = None, rmax = None, printed = []\<rparr> = Inr s"
    using check_coordinates_never_fails by blast
  from check_coordinates_keeps [OF s] have "df s = d"
    by simp
  then show ?thesis
    by (simp add: LidarData_init_unfold assms s)
qed

text \<open>
  On the vertical scan the first level is the azimuth: gate size 90, bounds -45 and 225.
  The volumetric scan with a single gate has a valid axis combination and fails.
\<close>

theorem LidarData_init_first_level_witness:
  "names df_vert = [''azimuth'', ''elevation''] \<and> levels df_vert 0 = Inr [0, 90, 180]
   \<and> (\<exists>c. LidarData_init df_vert True = Inr c \<and> df c = df_vert
           \<and> range_gate_size c = Some 90 \<and> rmin c = Some (- 45) \<and> rmax c = Some 225)
   \<and> names df_single = [''range'', ''azimuth'', ''elevation'']
   \<and> levels df_single 0 = Inr [15]
   \<and> LidarData_init df_single True = Inl (IndexError ''index 1 is out of bounds'')"
proof -
  have "names df_vert = [''azimuth'', ''elevation'']"
    and "names df_single = [''range'', ''azimuth'', ''elevation'']"
    by (simp_all add: df_vert_def df_single_def)
  then show ?thesis
    using LidarData_init_first_level [OF levels_df_vert, of True]
      LidarData_init_first_level [OF levels_df_single, of True]
      levels_df_vert levels_df_single
    by simp
qed

text \<open>
  Claim C10, as stated, lets \<open>rmax\<close> depend on the first two entries only. Two tables
  whose first level starts with the same two entries, 15 and 45, get different upper
  bounds: 90 with a third gate at 75, and 60 without.
\<close>

theorem rmax_not_from_first_two_entries:
  "map_sum id (take 2) (levels df_vol 0) = map_sum id (take 2) (levels df_range_only 0)
   \<and> map_sum id rmax (LidarData_init df_vol False) = Inr (Some 90)
   \<and> map_sum id rmax (LidarData_init df_range_only False) = Inr (Some 60)"
  by (simp add: LidarData_init_unfold levels_def check_coordinates_def say_def Let_def
      df_vol_def df_range_only_def)

subsection \<open>The accessors\<close>

lemma levels_sorted_distinct:
  "levels d k = Inr xs \<Longrightarrow>
     sorted xs \<and> distinct xs \<and> set xs = (\<lambda>(key, _). key ! k) ` set (rows d)"
  by (auto simp: levels_def split: if_splits)

text \<open>
  Claim C7. The accessors are meant to expose the values along the range, the azimuth and
  the elevation axis, and to be empty or absent for an axis the key does not have. They
  read the index levels by position: on the RHI scan, whose key is (range, elevation),
  \<open>az\<close> returns the distinct elevations 1, 2, 3.
\<close>

theorem az_of_RHI_scan_is_elevation:
  "LidarData_init df_rhi False = Inr c_rhi \<and> RHI c_rhi
   \<and> get_level_values df_rhi ''azimuth'' = Inl (KeyError ''azimuth'')
   \<and> get_level_values df_rhi ''elevation'' = Inr [1, 2, 1, 3]
   \<and> az c_rhi = Inr [1, 2, 3]"
  by (simp add: LidarData_init_unfold levels_def check_coordinates_def say_def Let_def
      df_rhi_def c_rhi_def az_def get_level_values_def)

subsection \<open>Range-gate lookup\<close>

lemma uniform_gates_nth: "uniform_gates l \<Longrightarrow> i < length l \<Longrightarrow> l ! i = l ! 0 + real i * (l ! 1 - l ! 0)"
  by (simp add: uniform_gates_def list_all_iff)

lemma first_where_Some:
  "first_where P xs = Some i \<longleftrightarrow> i < length xs \<and> P (xs ! i) \<and> (\<forall>j<i. \<not> P (xs ! j))"
proof (induction xs arbitrary: i)
  case Nil
  then show ?case by simp
next
  case (Cons x xs)
  show ?case
  proof (cases "P x")
    case True
    then show ?thesis
      by (cases i) auto
  next
    case False
    show ?thesis
    proof (cases i)
      case 0
      with False show ?thesis
        by (auto split: option.splits)
    next
      case (Suc k)
      have "(\<forall>j<Suc k. \<not> P ((x # xs) ! j)) \<longleftrightarrow> (\<forall>j<k. \<not> P (xs ! j))"
        using False by (auto simp: less_Suc_eq_0_disj)
      with False Suc Cons.IH [of k] show ?thesis
        by (auto split: option.splits)
    qed
  qed
qed

lemma first_where_None: "first_where P xs = None \<longleftrightarrow> (\<forall>x \<in> set xs. \<not> P x)"
  by (induction xs) (auto split: option.splits)

lemma first_where_map: "first_where P (map f xs) = first_where (\<lambda>x. P (f x)) xs"
  by (induction xs) simp_all

lemma first_where_find:
  "first_where P xs = Some i \<Longrightarrow> find P xs = Some (xs ! i)"
  by (auto simp: first_where_Some find_Some_iff)

lemma LidarData_init_attrs:
  assumes "LidarData_init d v = Inr c"
  shows "\<exists>l. levels d 0 = Inr l \<and> 2 \<le> length l \<and> df c = d \<and> verbose c = v
           \<and> range_gate_size c = Some (l ! 1 - l ! 0)
           \<and> rmin c = Some (l ! 0 - (l ! 1 - l ! 0) / 2)
           \<and> rmax c = Some (last l + (l ! 1 - l ! 0) / 2)"
proof -
  obtain s where s:
    "check_coordinates \<lparr>verbose = v, df = d, RHI = False, PPI = False,
       range_gate_size = None, rmin = None, rmax = None, printed = []\<rparr> = Inr s"
    using check_coordinates_never_fails by blast
  from check_coordinates_keeps [OF s] have "df s = d" "verbose s = v"
    by simp_all
  with assms show ?thesis
    by (auto simp: LidarData_init_unfold s split: sum.splits if_splits)
qed

lemma gate_positive:
  assumes "levels d 0 = Inr l" "2 \<le> length l"
  shows "l ! 0 < l ! 1"
proof -
  from levels_sorted_distinct [OF assms(1)] have "sorted l" "distinct l"
    by simp_all
  from \<open>sorted l\<close> assms(2) have "l ! 0 \<le> l ! 1"
    by (intro sorted_nth_mono) simp_all
  moreover from assms(2) have "0 < length l" "1 < length l"
    by linarith+
  with \<open>distinct l\<close> have "l ! 0 \<noteq> l ! 1"
    by (simp add: nth_eq_iff_index_eq)
  ultimately show ?thesis
    by simp
qed

lemma first_where_find_None: "first_where P xs = None \<Longrightarrow> find P xs = None"
  by (simp add: first_where_None find_None_iff)

text \<open>\<open>get_range\<close> on a container whose attributes are set.\<close>

lemma get_range_unfold:
  assumes "levels (df c) 0 = Inr l" "rmin c = Some lo" "rmax c = Some hi"
    "range_gate_size c = Some g"
  shows "get_range ar c q =
     (if q < lo then Inl (ValueError ''Invalid range, r < '' lo)
      else if q \<ge> hi then Inl (ValueError ''Invalid range, r >= '' hi)
      else if q \<notin> set l then
        (case first_where (\<lambda>x. q < fadd ar x (fdiv ar g 2)) l of
           None \<Rightarrow> Inl (IndexError ''index 0 is out of bounds'')
         | Some idx \<Rightarrow>
             if fsub ar (l ! idx) (fdiv ar g 2) \<le> q \<and> q < fadd ar (l ! idx) (fdiv ar g 2)
             then Inr (if verbose c
                       then [NearestRangeGate idx (fsub ar (l ! idx) (fdiv ar g 2))
                               (fadd ar (l ! idx) (fdiv ar g 2))]
                       else [],
                       loc_first (l ! idx) (df c))
             else Inl (AssertionError ''r is not between r0 and r1''))
      else
        (case index_of q l of
           None \<Rightarrow> Inl (ValueError ''not in list'' q)
         | Some idx \<Rightarrow>
             Inr (if verbose c
                  then [RangeGate idx (fsub ar q (fdiv ar g 2)) (fadd ar q (fdiv ar g 2))]
                  else [],
                  loc_first q (df c))))"
  by (simp add: get_range_def assms first_where_map Let_def split: option.splits)

lemma get_range_ValueError:
  assumes "levels (df c) 0 = Inr l" "rmin c = Some lo" "rmax c = Some hi"
    "range_gate_size c = Some g"
  shows "(\<exists>m b. get_range ar c q = Inl (ValueError m b)) \<longleftrightarrow> q < lo \<or> q \<ge> hi"
proof (cases "q < lo \<or> q \<ge> hi")
  case True
  then show ?thesis
    by (auto simp: get_range_unfold [OF assms])
next
  case False
  have "\<exists>idx. index_of q l = Some idx" if "q \<in> set l"
    using that index_of_None [of q l] by (cases "index_of q l") auto
  with False show ?thesis
    by (auto simp: get_range_unfold [OF assms] split: option.splits)
qed

text \<open>
  Claim C1, as the code has it, in whatever arithmetic the gate edges are computed. For
  every container and every query \<open>r\<close>, \<open>get_range\<close> raises the out-of-domain
  \<open>ValueError\<close> exactly when \<open>r < rmin\<close> or \<open>r >= rmax\<close>; in particular it raises at
  \<open>rmax\<close>. For \<open>r\<close> in the domain it selects the gate centred at \<open>r\<close>, or else the first
  gate in ascending order whose right edge exceeds \<open>r\<close>; one is found whenever \<open>rmax\<close>
  is the right edge of the last gate. It returns the rows of the selected gate under
  the unchanged key when \<open>r\<close> is the centre or lies in the half-open interval of that
  gate, and fails at the assertion that re-validates the bounds otherwise.
\<close>

theorem get_range_gate:
  assumes lv: "levels (df c) 0 = Inr l"
    and lo: "rmin c = Some lo" and hi: "rmax c = Some hi" and g: "range_gate_size c = Some g"
  shows "((\<exists>m b. get_range ar c q = Inl (ValueError m b)) \<longleftrightarrow> q < lo \<or> q \<ge> hi)
       \<and> (\<exists>m b. get_range ar c hi = Inl (ValueError m b))
       \<and> (lo \<le> q \<and> q < hi \<longrightarrow>
            (case selected_gate ar g l q of
               None \<Rightarrow> get_range ar c q = Inl (IndexError ''index 0 is out of bounds'')
             | Some center \<Rightarrow>
                 center \<in> set l
                 \<and> (if q = center \<or> gate_contains ar g center q
                      then \<exists>msgs. get_range ar c q = Inr (msgs, loc_first center (df c))
                      else get_range ar c q = Inl (AssertionError ''r is not between r0 and r1''))))
       \<and> (lo \<le> q \<and> q < hi \<and> l \<noteq> [] \<and> hi = fadd ar (last l) (fdiv ar g 2) \<longrightarrow>
            selected_gate ar g l q \<noteq> None)
       \<and> names (loc_first x (df c)) = names (df c)
       \<and> rows (loc_first x (df c)) = filter (\<lambda>(key, _). key ! 0 = x) (rows (df c))"
proof -
  let ?P = "\<lambda>x. q < fadd ar x (fdiv ar g 2)"
  have ve: "(\<exists>m b. get_range ar c y = Inl (ValueError m b)) \<longleftrightarrow> y < lo \<or> y \<ge> hi" for y
    by (rule get_range_ValueError [OF lv lo hi g])
  from ve [of hi] have top: "\<exists>m b. get_range ar c hi = Inl (ValueError m b)"
    by simp
  have dom: "case selected_gate ar g l q of
               None \<Rightarrow> get_range ar c q = Inl (IndexError ''index 0 is out of bounds'')
             | Some center \<Rightarrow>
                 center \<in> set l
                 \<and> (if q = center \<or> gate_contains ar g center q
                      then \<exists>msgs. get_range ar c q = Inr (msgs, loc_first center (df c))
                      else get_range ar c q = Inl (AssertionError ''r is not between r0 and r1''))"
    if q: "lo \<le> q" "q < hi"
  proof (cases "q \<in> set l")
    case True
    then obtain k where "index_of q l = Some k"
      using index_of_None [of q l] by (cases "index_of q l") auto
    with True q show ?thesis
      by (simp add: selected_gate_def get_range_unfold [OF lv lo hi g])
  next
    case False
    show ?thesis
    proof (cases "first_where ?P l")
      case None
      with False q first_where_find_None [OF None] show ?thesis
        by (simp add: selected_gate_def get_range_unfold [OF lv lo hi g])
    next
      case (Some idx)
      then have il: "idx < length l" and up: "?P (l ! idx)"
        by (simp_all add: first_where_Some)
      from il False have ne: "q \<noteq> l ! idx"
        by auto
      from False q Some first_where_find [OF Some] il up ne show ?thesis
        by (simp add: selected_gate_def get_range_unfold [OF lv lo hi g] gate_contains_def)
    qed
  qed
  have found: "selected_gate ar g l q \<noteq> None"
    if "q < hi" "l \<noteq> []" "hi = fadd ar (last l) (fdiv ar g 2)"
  proof (cases "q \<in> set l")
    case True
    then show ?thesis
      by (simp add: selected_gate_def)
  next
    case False
    from that have "?P (last l)" "last l \<in> set l"
      by simp_all
    then have "find ?P l \<noteq> None"
      by (auto simp: find_None_iff)
    with False show ?thesis
      by (simp add: selected_gate_def)
  qed
  have "names (loc_first x (df c)) = names (df c)"
    "rows (loc_first x (df c)) = filter (\<lambda>(key, _). key ! 0 = x) (rows (df c))"
    by (simp_all add: loc_first_def)
  with ve [of q] top dom found show ?thesis
    by blast
qed

lemma init_vol: "LidarData_init df_vol False = Inr c_vol"
  by (simp add: LidarData_init_unfold levels_def check_coordinates_def say_def Let_def
      df_vol_def c_vol_def)

lemma levels_df_vol: "levels df_vol 0 = Inr [15, 45, 75]"
  by (simp add: levels_def df_vol_def)

lemma attrs_vol: "rmin c_vol = Some 0" "rmax c_vol = Some 90" "range_gate_size c_vol = Some 30"
  by (simp_all add: c_vol_def)

lemma uniform_vol: "uniform_gates [15, 45, 75]"
  by (simp add: uniform_gates_def upt_rec)

text \<open>
  The volumetric scan with gates at 15, 45 and 75, in exact arithmetic: the query 30 is
  no centre, the first right edge beyond it is that of the gate at 45, whose interval
  from 30 to 60 contains it; 90 and -1 are out of the domain.
\<close>

theorem get_range_gate_witness:
  "levels (df c_vol) 0 = Inr [15, 45, 75]
   \<and> rmin c_vol = Some 0 \<and> rmax c_vol = Some 90 \<and> range_gate_size c_vol = Some 30
   \<and> selected_gate exact 30 [15, 45, 75] 30 = Some 45 \<and> gate_contains exact 30 45 30
   \<and> (\<exists>msgs. get_range exact c_vol 30 = Inr (msgs, loc_first 45 df_vol))
   \<and> (\<exists>m b. get_range exact c_vol 90 = Inl (ValueError m b))
   \<and> (\<exists>m b. get_range exact c_vol (- 1) = Inl (ValueError m b))"
proof -
  have lv: "levels (df c_vol) 0 = Inr [15, 45, 75]"
    by (simp add: c_vol_def levels_df_vol)
  have d: "df c_vol = df_vol"
    by (simp add: c_vol_def)
  have s: "selected_gate exact 30 [15, 45, 75] 30 = Some 45" "gate_contains exact 30 45 30"
    by (simp_all add: selected_gate_def gate_contains_def exact_def)
  note t = get_range_gate [OF lv attrs_vol, of exact]
  from t [of 30] s have "\<exists>msgs. get_range exact c_vol 30 = Inr (msgs, loc_first 45 df_vol)"
    by (simp add: d)
  moreover from t [of 30] have "\<exists>m b. get_range exact c_vol 90 = Inl (ValueError m b)"
    by blast
  moreover from t [of "- 1"] have "\<exists>m b. get_range exact c_vol (- 1) = Inl (ValueError m b)"
    by simp
  ultimately show ?thesis
    using lv attrs_vol s by simp
qed

text \<open>
  Claim C1, as stated, has every query in the domain answered with the gate that
  contains it. Where the gates at 75 are missing, the query 70 lies in the domain from
  0 to 120 and in no gate: the lookup finds the gate at 105 and fails at the assertion
  that re-validates its bounds. All the numbers involved are whole, and the arithmetic
  on them is exact in double precision too.
\<close>

theorem get_range_gap_AssertionError:
  "LidarData_init df_gap False = Inr c_gap
   \<and> rmin c_gap = Some 0 \<and> rmax c_gap = Some 120 \<and> (0 :: real) \<le> 70 \<and> (70 :: real) < 120
   \<and> get_range exact c_gap 70 = Inl (AssertionError ''r is not between r0 and r1'')"
  by (simp add: LidarData_init_unfold levels_def check_coordinates_def say_def Let_def
      df_gap_def c_gap_def get_range_def exact_def)

subsubsection \<open>Exact arithmetic and uniform gates\<close>

text \<open>Uniformly spaced gates do not overlap.\<close>

lemma gates_disjoint:
  assumes u: "uniform_gates l" and g: "0 < l ! 1 - l ! 0"
    and i: "i < length l" and j: "j < length l"
    and ci: "gate_contains exact (l ! 1 - l ! 0) (l ! i) q" and cj: "gate_contains exact (l ! 1 - l ! 0) (l ! j) q"
  shows "i = j"
proof -
  define g where "g = l ! 1 - l ! 0"
  have le: "a \<le> b" if a: "a < length l" and b: "b < length l"
    and ca: "l ! a - g / 2 \<le> q" and cb: "q < l ! b + g / 2" for a b
  proof (rule ccontr)
    assume "\<not> a \<le> b"
    then have "real b + 1 \<le> real a"
      by simp
    then have "(real b + 1) * g \<le> real a * g"
      using g by (intro mult_right_mono) (simp_all add: g_def)
    then have "real b * g + g \<le> real a * g"
      by (simp add: distrib_right)
    moreover have "l ! a = l ! 0 + real a * g" "l ! b = l ! 0 + real b * g"
      using uniform_gates_nth [OF u] a b by (simp_all add: g_def)
    ultimately show False
      using ca cb by linarith
  qed
  from le [OF i j] le [OF j i] ci cj show ?thesis
    by (simp add: gate_contains_def exact_def g_def)
qed


lemma get_range_selects:
  assumes lv: "levels (df c) 0 = Inr l" and len: "2 \<le> length l"
    and lo: "rmin c = Some (l ! 0 - (l ! 1 - l ! 0) / 2)"
    and hi: "rmax c = Some (last l + (l ! 1 - l ! 0) / 2)"
    and g: "range_gate_size c = Some (l ! 1 - l ! 0)"
    and u: "uniform_gates l"
    and q: "l ! 0 - (l ! 1 - l ! 0) / 2 \<le> q" "q < last l + (l ! 1 - l ! 0) / 2"
  shows "\<exists>idx msgs. first_where (\<lambda>x. q < x + (l ! 1 - l ! 0) / 2) l = Some idx
           \<and> idx < length l
           \<and> gate_contains exact (l ! 1 - l ! 0) (l ! idx) q
           \<and> get_range exact c q = Inr (msgs, loc_first (l ! idx) (df c))"
proof -
  define g where "g = l ! 1 - l ! 0"
  have gpos: "0 < g"
    using gate_positive [OF lv len] by (simp add: g_def)
  have ne: "l \<noteq> []"
    using len by auto
  let ?P = "\<lambda>x. q < x + g / 2"
  have "?P (last l)"
    using q(2) by (simp add: g_def)
  with ne have "first_where ?P l \<noteq> None"
    by (auto simp: first_where_None)
  then obtain idx where idx: "first_where ?P l = Some idx"
    by auto
  then have il: "idx < length l" and up: "q < l ! idx + g / 2"
    and before: "\<forall>j<idx. \<not> q < l ! j + g / 2"
    by (simp_all add: first_where_Some)
  have low: "l ! idx - g / 2 \<le> q"
  proof (cases idx)
    case 0
    with q(1) show ?thesis
      by (simp add: g_def)
  next
    case (Suc k)
    with before have "l ! k + g / 2 \<le> q"
      by auto
    moreover have "l ! k = l ! 0 + real k * g" "l ! idx = l ! 0 + (real k + 1) * g"
      using uniform_gates_nth [OF u, of k] uniform_gates_nth [OF u, of idx] il Suc
      by (simp_all add: g_def)
    ultimately show ?thesis
      by (simp add: distrib_right)
  qed
  from low up have gc: "gate_contains exact g (l ! idx) q"
    by (simp add: gate_contains_def exact_def)
  have sel: "l ! idx = q" if "q \<in> set l"
  proof -
    from that obtain j where j: "j < length l" "l ! j = q"
      by (auto simp: in_set_conv_nth)
    with gpos have "gate_contains exact g (l ! j) q"
      by (simp add: gate_contains_def exact_def)
    from gates_disjoint [OF u _ il j(1)] gc this gpos have "idx = j"
      by (simp add: g_def)
    with j show ?thesis
      by simp
  qed
  have ex: "\<exists>k. index_of q l = Some k" if "q \<in> set l"
    using that index_of_None [of q l] by (cases "index_of q l") auto
  have "\<exists>msgs. get_range exact c q = Inr (msgs, loc_first (l ! idx) (df c))"
  proof (cases "q \<in> set l")
    case True
    with ex obtain k where "index_of q l = Some k"
      by blast
    with True sel q show ?thesis
      by (simp add: get_range_unfold [OF lv lo hi g] exact_def)
  next
    case False
    with low up idx q show ?thesis
      by (simp add: get_range_unfold [OF lv lo hi g] exact_def g_def)
  qed
  with idx il gc show ?thesis
    by (auto simp: g_def)
qed


text \<open>
  In exact arithmetic, which the double precision of the source only approximates: on a
  constructed container with uniformly spaced gate centres, a query in the domain lies
  in exactly one gate, the lookup selects it and returns its rows; a query at the lower
  bound of a gate selects that gate.
\<close>

lemma get_range_exact_uniform:
  assumes init: "LidarData_init d v = Inr c" and lv: "levels d 0 = Inr l"
    and lo: "rmin c = Some lo" and hi: "rmax c = Some hi" and g: "range_gate_size c = Some g"
  shows "((\<exists>m b. get_range exact c q = Inl (ValueError m b)) \<longleftrightarrow> q < lo \<or> q \<ge> hi)
       \<and> (\<exists>m b. get_range exact c hi = Inl (ValueError m b))
       \<and> (uniform_gates l \<and> lo \<le> q \<and> q < hi \<longrightarrow>
            (\<exists>center msgs. get_range exact c q = Inr (msgs, loc_first center d)
               \<and> names (loc_first center d) = names d
               \<and> center \<in> set l \<and> gate_contains exact g center q
               \<and> (\<forall>x \<in> set l. gate_contains exact g x q \<longrightarrow> x = center)
               \<and> find (\<lambda>x. q < x + g / 2) l = Some center))
       \<and> (uniform_gates l \<longrightarrow>
            (\<forall>center \<in> set l. \<exists>msgs. get_range exact c (center - g / 2) = Inr (msgs, loc_first center d)))"
proof -
  from LidarData_init_attrs [OF init] lv lo hi g
  have len: "2 \<le> length l" and d: "df c = d" and g_eq: "g = l ! 1 - l ! 0"
    and lo_eq: "lo = l ! 0 - (l ! 1 - l ! 0) / 2" and hi_eq: "hi = last l + (l ! 1 - l ! 0) / 2"
    by auto
  from lv d have lvc: "levels (df c) 0 = Inr l"
    by simp
  have gpos: "0 < g"
    using gate_positive [OF lv len] by (simp add: g_eq)
  have ve: "(\<exists>m b. get_range exact c x = Inl (ValueError m b)) \<longleftrightarrow> x < lo \<or> x \<ge> hi" for x
    by (rule get_range_ValueError [OF lvc lo hi g])
  have sel: "\<exists>center msgs. get_range exact c x = Inr (msgs, loc_first center d)
               \<and> names (loc_first center d) = names d
               \<and> center \<in> set l \<and> gate_contains exact g center x
               \<and> (\<forall>y \<in> set l. gate_contains exact g y x \<longrightarrow> y = center)
               \<and> find (\<lambda>y. x < y + g / 2) l = Some center"
    if u: "uniform_gates l" and x: "lo \<le> x" "x < hi" for x
  proof -
    from get_range_selects [OF lvc len lo [unfolded lo_eq] hi [unfolded hi_eq] g [unfolded g_eq] u,
        of x] x
    obtain idx msgs where idx: "first_where (\<lambda>y. x < y + g / 2) l = Some idx"
      and il: "idx < length l" and gc: "gate_contains exact g (l ! idx) x"
      and res: "get_range exact c x = Inr (msgs, loc_first (l ! idx) d)"
      by (auto simp: g_eq lo_eq hi_eq d)
    have "y = l ! idx" if "y \<in> set l" "gate_contains exact g y x" for y
    proof -
      from that(1) obtain j where j: "j < length l" "l ! j = y"
        by (auto simp: in_set_conv_nth)
      from gates_disjoint [OF u _ j(1) il, of x] that(2) gc gpos j(2) have "j = idx"
        by (simp add: g_eq)
      with j show ?thesis
        by simp
    qed
    with res il gc first_where_find [OF idx] show ?thesis
      by (auto simp: loc_first_def)
  qed
  have lower: "\<exists>msgs. get_range exact c (center - g / 2) = Inr (msgs, loc_first center d)"
    if u: "uniform_gates l" and m: "center \<in> set l" for center
  proof -
    from levels_sorted_distinct [OF lv] have sorted: "sorted l"
      by simp
    from m obtain j where j: "j < length l" "l ! j = center"
      by (auto simp: in_set_conv_nth)
    from len have ne: "l \<noteq> []"
      by auto
    from sorted j have "l ! 0 \<le> center"
      using sorted_nth_mono [of l 0 j] by simp
    moreover from sorted j ne have "center \<le> last l"
      using sorted_nth_mono [of l j "length l - 1"] by (simp add: last_conv_nth)
    moreover have "lo = l ! 0 - g / 2" "hi = last l + g / 2"
      by (simp_all add: lo_eq hi_eq g_eq)
    ultimately have x: "lo \<le> center - g / 2" "center - g / 2 < hi"
      using gpos by linarith+
    from sel [OF u x] obtain c' msgs
      where res: "get_range exact c (center - g / 2) = Inr (msgs, loc_first c' d)"
        and uniq: "\<forall>y \<in> set l. gate_contains exact g y (center - g / 2) \<longrightarrow> y = c'"
      by blast
    from gpos have "gate_contains exact g center (center - g / 2)"
      by (simp add: gate_contains_def exact_def)
    with uniq m have "center = c'"
      by blast
    with res show ?thesis
      by blast
  qed
  from ve [of hi] have top: "\<exists>m b. get_range exact c hi = Inl (ValueError m b)"
    by simp
  from ve [of q] top sel [of q] lower show ?thesis
    by blast
qed


subsection \<open>Intensity filtering\<close>

text \<open>The two masking steps amount to one mask: the rows the window excludes.\<close>

lemma filter_by_intensity_eq:
  assumes "wf_df (df self)" "column (df self) ''intensity'' = Inr v"
  shows "filter_by_intensity self mn mx =
           Inr (self\<lparr>df := mask_rows (map (out_of_bounds mn mx) v) (df self)\<rparr>)"
proof -
  have len: "length v = length (rows (df self))"
    using column_length [OF assms(2)] .
  have none: "mask_rows (map (\<lambda>x. False) v) (df self) = df self"
    by (simp add: mask_rows_def mask_list_none [OF len])
  show ?thesis
  proof (cases mn)
    case None
    show ?thesis
    proof (cases mx)
      case None
      have "out_of_bounds None None = (\<lambda>x. False)"
        by (auto simp: fun_eq_iff out_of_bounds_def split: option.splits)
      then show ?thesis
        using \<open>mn = None\<close> None by (simp add: filter_by_intensity_def none)
    next
      case (Some M)
      have "out_of_bounds None (Some M) = above M"
        by (auto simp: fun_eq_iff out_of_bounds_def above_def split: option.splits)
      then show ?thesis
        using \<open>mn = None\<close> Some by (simp add: filter_by_intensity_def assms(2))
    qed
  next
    case (Some m)
    have c1: "column (mask_rows (map (below m) v) (df self)) ''intensity'' =
        Inr (map (\<lambda>(b, x). if b then None else x) (zip (map (below m) v) v))"
      by (rule column_mask_rows [OF assms]) (simp add: len)
    show ?thesis
    proof (cases mx)
      case None
      have "out_of_bounds (Some m) None = below m"
        by (auto simp: fun_eq_iff out_of_bounds_def below_def split: option.splits)
      then show ?thesis
        using \<open>mn = Some m\<close> None by (simp add: filter_by_intensity_def assms(2))
    next
      case (Some M)
      have "map (\<lambda>(a, b). a \<or> b) (zip (map (below m) v)
              (map (above M) (map (\<lambda>(b, x). if b then None else x) (zip (map (below m) v) v))))
            = map (out_of_bounds (Some m) (Some M)) v"
        by (intro nth_equalityI)
           (auto simp: out_of_bounds_def below_def above_def split: option.splits)
      then have "mask_rows
              (map (above M) (map (\<lambda>(b, x). if b then None else x) (zip (map (below m) v) v)))
              (mask_rows (map (below m) v) (df self))
            = mask_rows (map (out_of_bounds mn mx) v) (df self)"
        using len \<open>mn = Some m\<close> Some
        by (simp add: mask_rows_def mask_list_twice)
      then show ?thesis
        using \<open>mn = Some m\<close> Some
        by (simp add: filter_by_intensity_def assms(2) c1)
    qed
  qed
qed

text \<open>
  Claim C9. Intensity filtering fails only when a bound is given and the table has no
  intensity column. Otherwise it changes nothing but the table, whose index (level
  names, number of rows, index tuples) and column names stay as they were; every row
  whose intensity is below \<open>min_intensity\<close> or above \<open>max_intensity\<close> has all of its fields
  missing, and every other row is unchanged.
\<close>

theorem filter_by_intensity_frame:
  assumes "wf_df (df self)"
  shows "case filter_by_intensity self min_intensity max_intensity of
           Inl e \<Rightarrow>
             column (df self) ''intensity'' = Inl e
             \<and> (min_intensity \<noteq> None \<or> max_intensity \<noteq> None)
         | Inr self' \<Rightarrow>
             self' = self\<lparr>df := df self'\<rparr>
             \<and> names (df self') = names (df self)
             \<and> columns (df self') = columns (df self)
             \<and> map fst (rows (df self')) = map fst (rows (df self))
             \<and> (\<forall>i < length (rows (df self)).
                    snd (rows (df self') ! i) =
                      (if out_of_bounds min_intensity max_intensity (intensity (df self) i)
                       then replicate (length (columns (df self))) None
                       else snd (rows (df self) ! i)))"
proof (cases "column (df self) ''intensity''")
  case (Inl e)
  then show ?thesis
    by (cases min_intensity; cases max_intensity)
       (simp_all add: filter_by_intensity_def intensity_def out_of_bounds_def)
next
  case (Inr v)
  have len: "length v = length (rows (df self))"
    using column_length [OF Inr] .
  show ?thesis
    using wf_df_row [OF assms]
    by (simp add: filter_by_intensity_eq [OF assms Inr] intensity_def Inr len
        mask_list_keys mask_list_nth)
qed

text \<open>
  On the volumetric scan with the window from 3 to 8: the rows of intensity 2 and 9
  become missing, the row that was missing stays so, the others keep their fields.
\<close>

theorem filter_by_intensity_frame_witness:
  "wf_df (df c_vol)
   \<and> filter_by_intensity c_vol (Some 3) (Some 8) =
       Inr (c_vol\<lparr>df := df_vol\<lparr>rows :=
              [([15, 0, 1], [Some 5]), ([15, 90, 1], [Some 7]), ([45, 0, 1], [None]),
               ([45, 90, 1], [None]), ([75, 0, 1], [None])]\<rparr>\<rparr>)"
proof -
  have wf: "wf_df (df c_vol)"
    by (simp add: wf_df_def c_vol_def df_vol_def)
  show ?thesis
    using wf filter_by_intensity_frame [OF wf, of "Some 3" "Some 8"]
    by (simp add: filter_by_intensity_def c_vol_def df_vol_def mask_rows_def mask_list_def
        below_def above_def column_def)
qed

subsection \<open>The loader\<close>

lemma load_raw0: "load raw0 0 30 =
  \<lparr>names = [''range'', ''azimuth'', ''elevation''], columns = [''range_gate'', ''intensity''],
   rows = [([15, 0, 1], [Some 0, Some 5]), ([15, 90, 1], [Some 0, Some 7]), ([45, 0, 1], [Some 1, Some 2])]\<rparr>"
  by (simp add: load_def raw0_def)

lemma LidarData_init_df: "LidarData_init d v = Inr c \<Longrightarrow> df c = d"
proof -
  assume a: "LidarData_init d v = Inr c"
  obtain s where s:
    "check_coordinates \<lparr>verbose = v, df = d, RHI = False, PPI = False,
       range_gate_size = None, rmin = None, rmax = None, printed = []\<rparr> = Inr s"
    using check_coordinates_never_fails by blast
  from check_coordinates_keeps [OF s] have "df s = d"
    by simp
  with a show ?thesis
    by (auto simp: LidarData_init_unfold s split: sum.splits if_splits)
qed

lemma column_present: "n \<in> set (columns d) \<Longrightarrow> \<exists>v. column d n = Inr v"
  by (cases "index_of n (columns d)") (simp_all add: column_def index_of_None)

lemma filter_by_intensity_succeeds:
  assumes "''intensity'' \<in> set (columns (df self))"
  shows "\<exists>self'. filter_by_intensity self mn mx = Inr self'"
proof -
  from column_present [OF assms] obtain v where v: "column (df self) ''intensity'' = Inr v"
    by blast
  obtain self1 where s1:
    "(case mn of
        None \<Rightarrow> Inr self
      | Some m \<Rightarrow>
          (case column (df self) ''intensity'' of
             Inl e \<Rightarrow> Inl e
           | Inr v \<Rightarrow> Inr (self\<lparr>df := mask_rows (map (below m) v) (df self)\<rparr>))) = Inr self1"
    and c1: "columns (df self1) = columns (df self)"
    by (cases mn) (simp_all add: v)
  from c1 assms column_present [of "''intensity''" "df self1"]
  obtain w where w: "column (df self1) ''intensity'' = Inr w"
    by auto
  show ?thesis
    by (cases mx) (simp_all add: filter_by_intensity_def s1 w)
qed

lemma py_nth_0: "py_nth (x # xs) 0 = Inr x"
  and py_nth_1: "py_nth (x # y # xs) 1 = Inr y"
  by (simp_all add: py_nth_def)

lemma py_nth_valid: "- int (length xs) \<le> i \<Longrightarrow> i < int (length xs) \<Longrightarrow> \<exists>y. py_nth xs i = Inr y"
  by (auto simp: py_nth_def)

lemma mask_where_columns [simp]: "columns (df (mask_where P xs self)) = columns (df self)"
  by (simp add: mask_where_def)

lemma filter_by_range_absent:
  "filter_by_range self None None = Inl (AssertionError ''Specify range_gates or ranges'')"
  by (simp add: filter_by_range_def truthy_def)

lemma filter_by_range_ranges:
  assumes "''range'' \<in> set (names (df self))"
  shows "\<exists>self'. filter_by_range self None (Some (lo # hi # rest)) = Inr self'
           \<and> columns (df self') = columns (df self)"
proof -
  from assms obtain allranges where "get_level_values (df self) ''range'' = Inr allranges"
    using get_level_values_cases [of "''range''" "df self"] by auto
  then show ?thesis
    by (cases lo; cases hi) (simp_all add: filter_by_range_def truthy_def py_nth_0 py_nth_1)
qed

lemma filter_by_range_gates:
  assumes "''range'' \<in> set (names (df self))"
    and "valid_gate (length (rows (df self))) g0" and "valid_gate (length (rows (df self))) g1"
  shows "\<exists>self'. filter_by_range self (Some (g0 # g1 # rest)) ranges = Inr self'
           \<and> columns (df self') = columns (df self)"
proof -
  from assms(1) obtain allranges where a: "get_level_values (df self) ''range'' = Inr allranges"
    and l: "length allranges = length (rows (df self))"
    using get_level_values_cases [of "''range''" "df self"] by auto
  have valid: "\<exists>y. py_nth allranges i = Inr y"
    if "valid_gate (length (rows (df self))) (Some i)" for i
    using that by (intro py_nth_valid) (simp_all add: valid_gate_def l)
  obtain self1 where s1:
    "(case g0 of
        None \<Rightarrow> Inr self
      | Some i \<Rightarrow>
          (case py_nth allranges i of
             Inl e \<Rightarrow> Inl e
           | Inr minrange \<Rightarrow> Inr (mask_where (\<lambda>x. x \<le> minrange) allranges self))) = Inr self1"
    and c1: "columns (df self1) = columns (df self)"
  proof (cases g0)
    case None
    then show ?thesis
      by (intro that [of self]) simp_all
  next
    case (Some i)
    with valid assms(2) obtain y where "py_nth allranges i = Inr y"
      by blast
    with Some show ?thesis
      by (intro that [of "mask_where (\<lambda>x. x \<le> y) allranges self"]) simp_all
  qed
  obtain self2 where s2:
    "(case g1 of
        None \<Rightarrow> Inr self1
      | Some i \<Rightarrow>
          (case py_nth allranges i of
             Inl e \<Rightarrow> Inl e
           | Inr maxrange \<Rightarrow> Inr (mask_where (\<lambda>x. x \<ge> maxrange) allranges self1))) = Inr self2"
    and c2: "columns (df self2) = columns (df self1)"
  proof (cases g1)
    case None
    then show ?thesis
      by (intro that [of self1]) simp_all
  next
    case (Some i)
    with valid assms(3) obtain y where "py_nth allranges i = Inr y"
      by blast
    with Some show ?thesis
      by (intro that [of "mask_where (\<lambda>x. x \<ge> y) allranges self1"]) simp_all
  qed
  have "filter_by_range self (Some (g0 # g1 # rest)) ranges = Inr self2"
    by (simp add: filter_by_range_def truthy_def py_nth_0 py_nth_1 a s1 s2)
  with c1 c2 show ?thesis
    by simp
qed

text \<open>
  Claim C8, as the code has it. On a raw table with an intensity column for which
  loading and the base construction succeed: with both range windows left out the
  constructor fails at the assertion \<open>Specify range_gates or ranges\<close>, whatever the
  intensity bounds; with an absolute-range window it succeeds for every choice of its
  two bounds and of the two intensity bounds, each given or left out; with a gate-index
  window it succeeds likewise, provided the gate bounds that are given index existing
  rows.
\<close>

theorem PEIWEE_init_filters:
  assumes "loaded raw minimum_range gate_size v"
    and "''intensity'' \<in> set (raw_columns raw)"
  shows "GalionCornellPEIWEE_init raw minimum_range gate_size None None (mn, mx) v =
           Inl (AssertionError ''Specify range_gates or ranges'')
         \<and> (\<exists>self. GalionCornellPEIWEE_init raw minimum_range gate_size
                       None (Some (lo # hi # rest)) (mn, mx) v = Inr self)
         \<and> (valid_gate (length (raw_rows raw)) g0 \<and> valid_gate (length (raw_rows raw)) g1 \<longrightarrow>
              (\<exists>self. GalionCornellPEIWEE_init raw minimum_range gate_size
                       (Some (g0 # g1 # rest')) ranges (mn, mx) v = Inr self))"
proof -
  let ?d = "load raw minimum_range gate_size"
  from assms(1) obtain c where c: "LidarData_init ?d v = Inr c"
    by (auto simp: loaded_def split: sum.splits)
  from LidarData_init_df [OF c] have d: "df c = ?d" .
  have n: "''range'' \<in> set (names (df c))"
    and i: "''intensity'' \<in> set (columns (df c))"
    and l: "length (rows (df c)) = length (raw_rows raw)"
    using assms(2) by (simp_all add: d load_def)
  have 1: "GalionCornellPEIWEE_init raw minimum_range gate_size None None (mn, mx) v =
           Inl (AssertionError ''Specify range_gates or ranges'')"
    by (simp add: GalionCornellPEIWEE_init_def c filter_by_range_absent)
  have 2: "\<exists>self. GalionCornellPEIWEE_init raw minimum_range gate_size
                       None (Some (lo # hi # rest)) (mn, mx) v = Inr self"
  proof -
    from filter_by_range_ranges [OF n, of lo hi rest]
    obtain s1 where s1: "filter_by_range c None (Some (lo # hi # rest)) = Inr s1"
      and "columns (df s1) = columns (df c)"
      by blast
    with i filter_by_intensity_succeeds [of s1 mn mx] show ?thesis
      by (simp add: GalionCornellPEIWEE_init_def c s1)
  qed
  have 3: "\<exists>self. GalionCornellPEIWEE_init raw minimum_range gate_size
                       (Some (g0 # g1 # rest')) ranges (mn, mx) v = Inr self"
    if "valid_gate (length (raw_rows raw)) g0" "valid_gate (length (raw_rows raw)) g1"
  proof -
    from filter_by_range_gates [OF n, of g0 g1 rest' ranges] that l
    obtain s1 where s1: "filter_by_range c (Some (g0 # g1 # rest')) ranges = Inr s1"
      and "columns (df s1) = columns (df c)"
      by auto
    with i filter_by_intensity_succeeds [of s1 mn mx] show ?thesis
      by (simp add: GalionCornellPEIWEE_init_def c s1)
  qed
  from 1 2 3 show ?thesis
    by blast
qed

lemma loaded_raw0: "loaded raw0 0 30 True"
  by (simp add: loaded_def load_raw0 LidarData_init_unfold levels_def check_coordinates_def
      say_def Let_def)

lemma intensity_raw0: "''intensity'' \<in> set (raw_columns raw0)"
  by (simp add: raw0_def)

text \<open>
  On the table of three beams: no window fails; a range window with only its upper
  bound, and a gate window with only its lower bound, succeed with a lone upper
  intensity bound.
\<close>

theorem PEIWEE_init_filters_witness:
  "loaded raw0 0 30 True \<and> ''intensity'' \<in> set (raw_columns raw0)
   \<and> valid_gate (length (raw_rows raw0)) (Some 0) \<and> valid_gate (length (raw_rows raw0)) None
   \<and> GalionCornellPEIWEE_init raw0 0 30 None None (None, Some 6) True =
           Inl (AssertionError ''Specify range_gates or ranges'')
   \<and> (\<exists>self. GalionCornellPEIWEE_init raw0 0 30 None (Some [None, Some 20]) (None, Some 6) True
          = Inr self)
   \<and> (\<exists>self. GalionCornellPEIWEE_init raw0 0 30 (Some [Some 0, None]) None (None, Some 6) True
          = Inr self)"
proof -
  have g: "valid_gate (length (raw_rows raw0)) (Some 0)" "valid_gate (length (raw_rows raw0)) None"
    by (simp_all add: valid_gate_def raw0_def)
  from PEIWEE_init_filters [OF loaded_raw0 intensity_raw0,
      of None "Some 6" None "Some 20" "[]" "Some 0" None "[]" None]
    g loaded_raw0 intensity_raw0
  show ?thesis
    by simp
qed

text \<open>
  Claim C8, as stated, lets all three filters be absent at once. With every filter at
  its default the constructor fails.
\<close>

theorem PEIWEE_init_defaults_fail:
  "GalionCornellPEIWEE_init raw0 0 30 None None (None, None) True =
     Inl (AssertionError ''Specify range_gates or ranges'')"
  by (simp add: GalionCornellPEIWEE_init_def load_raw0 LidarData_init_unfold levels_def
      check_coordinates_def say_def Let_def filter_by_range_absent)

end
